theory Spec2Isabelle
  imports Main
begin

section \<open>Python values and exceptions\<close>

text \<open>
  The services of \<^verbatim>\<open>app/services\<close> are Python classes that sequence calls into a vector
  store, two embedding models and a language model.  Every call that can raise returns a
  sum here: \<open>Inl e\<close> is the exception \<open>e\<close>, \<open>Inr v\<close> the value \<open>v\<close>.
\<close>

datatype pyerror =
    ValueError string
  | IndexError string
  | KeyError string
  | AttributeError string
  | ExternalError string  \<comment> \<open>any exception raised inside an external library\<close>

text \<open>\<^verbatim>\<open>try: body  except Exception as e: handler(e)\<close> and \<^verbatim>\<open>raise e\<close>.\<close>

definition try_except :: "pyerror + 'a \<Rightarrow> (pyerror \<Rightarrow> pyerror + 'a) \<Rightarrow> pyerror + 'a" where
  "try_except body handler = (case body of Inl e \<Rightarrow> handler e | Inr v \<Rightarrow> Inr v)"

definition raise :: "pyerror \<Rightarrow> pyerror + 'a" where
  "raise e = Inl e"

section \<open>Data model\<close>

text \<open>
  A langchain \<^verbatim>\<open>Document\<close>: its text and its metadata dictionary (which holds
  \<^verbatim>\<open>pdf_id\<close>).  Vector components are Python floats; nothing here computes with them, so
  their type is the parameter \<open>'f\<close>.
\<close>

record document =
  page_content :: string
  metadata :: "(string \<times> string) list"

text \<open>What the sparse model's \<^verbatim>\<open>embed\<close> yields per text, and \<^verbatim>\<open>models.SparseVector\<close>.\<close>

record 'f sparse_embedding =
  emb_indices :: "int list"
  emb_values :: "'f list"

record 'f sparse_vector =
  indices :: "int list"
  vals :: "'f list"

text \<open>
  \<^verbatim>\<open>models.PointStruct(id=..., vector={"dense": d, "sparse": s}, payload={"content": c,
  "metadata": m})\<close>.  The two entries of \<^verbatim>\<open>vector\<close> are the Python variables
  \<^verbatim>\<open>dense_embedding\<close> and \<^verbatim>\<open>sparse_embedding\<close>, which the indexing loop sets to
  \<^verbatim>\<open>None\<close> when the embedding raised: they are options.
\<close>

record 'f point_struct =
  point_id :: string
  dense_entry :: "'f list option"
  sparse_entry :: "'f sparse_vector option"
  content :: string
  point_metadata :: "(string \<times> string) list"

text \<open>
  \<^verbatim>\<open>config.settings.settings\<close>: the module is not among the sources, so its attributes
  are the fields of a parameter.  \<open>DENSE_EMBEDDING_MODEL\<close> is the model's
  \<^verbatim>\<open>embed_query\<close>, \<open>SPARSE_EMBEDDING_MODEL\<close> is \<^verbatim>\<open>list(model.embed(texts))\<close>.
\<close>

record 'f settings =
  DENSE_EMBEDDING_MODEL :: "string \<Rightarrow> pyerror + 'f list"
  SPARSE_EMBEDDING_MODEL :: "string list \<Rightarrow> pyerror + 'f sparse_embedding list"
  QDRANT_URL :: string
  HYBRID_COLLECTION :: string

section \<open>HybridRagService: embedding helpers\<close>

definition create_dense_vector :: "'f settings \<Rightarrow> string \<Rightarrow> pyerror + 'f list" where
  "create_dense_vector S txt = try_except (DENSE_EMBEDDING_MODEL S txt) raise"

definition create_sparse_vector :: "'f settings \<Rightarrow> string \<Rightarrow> pyerror + 'f sparse_vector" where
  "create_sparse_vector S txt =
     try_except
       (case SPARSE_EMBEDDING_MODEL S [txt] of
          Inl e \<Rightarrow> Inl e
        | Inr [] \<Rightarrow> Inl (IndexError ''list index out of range'')
        | Inr (embeddings # _) \<Rightarrow>
            Inr \<lparr>indices = emb_indices embeddings, vals = emb_values embeddings\<rparr>)
       raise"

section \<open>HybridRagService.index_hybrid_collection\<close>

subsection \<open>Batching\<close>

text \<open>
  \<^verbatim>\<open>range(start, stop, step)\<close> for a positive step, and the slice
  \<^verbatim>\<open>chunks[i : j]\<close> for indices \<open>0 \<le> i\<close>, \<open>0 \<le> j\<close> (Python clamps both to the length).
\<close>

function py_range :: "nat \<Rightarrow> nat \<Rightarrow> nat \<Rightarrow> nat list" where
  "py_range i stop step = (if 0 < step \<and> i < stop then i # py_range (i + step) stop step else [])"
  by pat_completeness auto
termination
  by (relation "measure (\<lambda>(i, stop, step). stop - i)") auto

definition slice :: "'a list \<Rightarrow> nat \<Rightarrow> nat \<Rightarrow> 'a list" where
  "slice xs i j = take (j - i) (drop i xs)"

text \<open>
  \<^verbatim>\<open>[chunks[i : i + batch_size] for i in range(0, len(chunks), batch_size)]\<close>.
  \<^verbatim>\<open>range\<close> raises \<^verbatim>\<open>ValueError\<close> for a zero step and is empty for a negative step
  from 0.
\<close>

definition batched_chunks :: "'a list \<Rightarrow> int \<Rightarrow> pyerror + 'a list list" where
  "batched_chunks chunks batch_size =
     (if batch_size = 0 then Inl (ValueError ''range() arg 3 must not be zero'')
      else if batch_size < 0 then Inr []
      else Inr (map (\<lambda>i. slice chunks i (i + nat batch_size))
                  (py_range 0 (length chunks) (nat batch_size))))"

subsection \<open>The vector store as the indexing loop sees it\<close>

text \<open>
  The store holds the points of each collection.  \<^verbatim>\<open>client.upload_points\<close> is a call
  into the Qdrant client: whether it raises is the client's business (\<open>upload_error\<close>, which
  may look at the store, the collection and the points); when it does not raise, the points
  are in the collection afterwards.
\<close>

type_synonym 'f store = "string \<Rightarrow> 'f point_struct list"

type_synonym 'f upload_oracle = "'f store \<Rightarrow> string \<Rightarrow> 'f point_struct list \<Rightarrow> pyerror option"

definition upload_points ::
  "'f upload_oracle \<Rightarrow> 'f store \<Rightarrow> string \<Rightarrow> 'f point_struct list \<Rightarrow> int \<Rightarrow> pyerror + 'f store" where
  "upload_points upload_error st collection_name points batch_size =
     (case upload_error st collection_name points of
        Some e \<Rightarrow> Inl e
      | None \<Rightarrow> Inr (st(collection_name := st collection_name @ points)))"

subsection \<open>The loops\<close>

text \<open>
  The body of the inner loop, for one document.  The state is the list \<^verbatim>\<open>points\<close> of
  the batch, the number of identifiers drawn from \<^verbatim>\<open>uuid.uuid4\<close> so far (\<open>uuid4 k\<close> is
  the \<open>k\<close>-th identifier), and \<^verbatim>\<open>invalid_chunks\<close>.  Logging is left out, and building a
  \<^verbatim>\<open>PointStruct\<close> from values of these types does not raise.
\<close>

definition embed_doc ::
  "'f settings \<Rightarrow> (nat \<Rightarrow> string) \<Rightarrow> 'f point_struct list \<times> nat \<times> nat \<Rightarrow> document
     \<Rightarrow> 'f point_struct list \<times> nat \<times> nat" where
  "embed_doc S uuid4 acc doc =
     (case acc of (points, drawn, invalid_chunks) \<Rightarrow>
        let dense_embedding =
              (case create_dense_vector S (page_content doc) of
                 Inl e \<Rightarrow> None | Inr v \<Rightarrow> Some v);
            sparse_embedding =
              (case create_sparse_vector S (page_content doc) of
                 Inl e \<Rightarrow> None | Inr v \<Rightarrow> Some v)
        in if dense_embedding \<noteq> None \<and> sparse_embedding \<noteq> None
           then (points @ [\<lparr>point_id = uuid4 drawn,
                             dense_entry = dense_embedding,
                             sparse_entry = sparse_embedding,
                             content = page_content doc,
                             point_metadata = metadata doc\<rparr>],
                 Suc drawn, invalid_chunks)
           else (points, drawn, invalid_chunks + 1))"

text \<open>The inner loop over one batch, starting from \<^verbatim>\<open>points = []\<close>.\<close>

definition embed_batch ::
  "'f settings \<Rightarrow> (nat \<Rightarrow> string) \<Rightarrow> nat \<Rightarrow> nat \<Rightarrow> document list
     \<Rightarrow> 'f point_struct list \<times> nat \<times> nat" where
  "embed_batch S uuid4 drawn invalid_chunks batch =
     foldl (embed_doc S uuid4) ([], drawn, invalid_chunks) batch"

text \<open>
  The state of the call: the store behind \<^verbatim>\<open>self.client\<close>, the identifiers drawn, and
  \<^verbatim>\<open>invalid_chunks\<close>.
\<close>

record 'f index_state =
  store :: "'f store"
  uuids_drawn :: nat
  invalid_chunks :: nat

text \<open>
  The outer loop.  An exception of \<^verbatim>\<open>upload_points\<close> leaves the loop at once: the result
  is the exception and the state reached (\<open>Some e\<close>); \<open>None\<close> is the loop running to its end.
\<close>

fun process_batches ::
  "'f settings \<Rightarrow> (nat \<Rightarrow> string) \<Rightarrow> 'f upload_oracle \<Rightarrow> string \<Rightarrow> int \<Rightarrow> 'f index_state
     \<Rightarrow> document list list \<Rightarrow> pyerror option \<times> 'f index_state" where
  "process_batches S uuid4 upload_error brain_id batch_size st [] = (None, st)"
| "process_batches S uuid4 upload_error brain_id batch_size st (batch # rest) =
     (case embed_batch S uuid4 (uuids_drawn st) (invalid_chunks st) batch of
        (points, drawn, invalid) \<Rightarrow>
          if points \<noteq> [] then
            (case upload_points upload_error (store st) brain_id points batch_size of
               Inl e \<Rightarrow> (Some e, st\<lparr>uuids_drawn := drawn, invalid_chunks := invalid\<rparr>)
             | Inr store' \<Rightarrow>
                 process_batches S uuid4 upload_error brain_id batch_size
                   \<lparr>store = store', uuids_drawn = drawn, invalid_chunks = invalid\<rparr> rest)
          else
            process_batches S uuid4 upload_error brain_id batch_size
              (st\<lparr>uuids_drawn := drawn, invalid_chunks := invalid\<rparr>) rest)"

text \<open>
  What a call leaves behind: the value it returns, the exception its outer handler caught
  (if any), and the state at the return.
\<close>

record 'f index_result =
  returned :: bool
  caught :: "pyerror option"
  final :: "'f index_state"

definition index_hybrid_collection ::
  "'f settings \<Rightarrow> (nat \<Rightarrow> string) \<Rightarrow> 'f upload_oracle \<Rightarrow> 'f store \<Rightarrow> nat
     \<Rightarrow> document list \<Rightarrow> string \<Rightarrow> int \<Rightarrow> 'f index_result" where
  "index_hybrid_collection S uuid4 upload_error store0 drawn0 chunks brain_id batch_size =
     (let st0 = \<lparr>store = store0, uuids_drawn = drawn0, invalid_chunks = 0\<rparr> in
      case batched_chunks chunks batch_size of
        Inl e \<Rightarrow> \<lparr>returned = False, caught = Some e, final = st0\<rparr>
      | Inr batches \<Rightarrow>
          (case process_batches S uuid4 upload_error brain_id batch_size st0 batches of
             (None, st) \<Rightarrow> \<lparr>returned = (invalid_chunks st = 0), caught = None, final = st\<rparr>
           | (Some e, st) \<Rightarrow> \<lparr>returned = False, caught = Some e, final = st\<rparr>))"

subsection \<open>What the claims about indexing speak of\<close>

text \<open>
  An embedding "failed" for a document when the helper raised; a document is embedded when
  neither failed.
\<close>

definition dense_failed :: "'f settings \<Rightarrow> document \<Rightarrow> bool" where
  "dense_failed S doc = isl (create_dense_vector S (page_content doc))"

definition sparse_failed :: "'f settings \<Rightarrow> document \<Rightarrow> bool" where
  "sparse_failed S doc = isl (create_sparse_vector S (page_content doc))"

definition embeds_ok :: "'f settings \<Rightarrow> document \<Rightarrow> bool" where
  "embeds_ok S doc = (\<not> dense_failed S doc \<and> \<not> sparse_failed S doc)"

text \<open>
  The document a stored point was built from (its payload).
\<close>

definition doc_of :: "'f point_struct \<Rightarrow> document" where
  "doc_of p = \<lparr>page_content = content p, metadata = point_metadata p\<rparr>"

text \<open>
  The points the inner loop builds for a list of documents when \<open>drawn\<close> identifiers
  have been used before: one per embedded document, in order, with fresh identifiers.
  Lemma \<open>embed_batch_eq\<close> below proves that the loop computes exactly this.
\<close>

fun new_points :: "'f settings \<Rightarrow> (nat \<Rightarrow> string) \<Rightarrow> nat \<Rightarrow> document list \<Rightarrow> 'f point_struct list" where
  "new_points S uuid4 drawn [] = []"
| "new_points S uuid4 drawn (doc # docs) =
     (if embeds_ok S doc
      then \<lparr>point_id = uuid4 drawn,
            dense_entry = (case create_dense_vector S (page_content doc) of Inl e \<Rightarrow> None | Inr v \<Rightarrow> Some v),
            sparse_entry = (case create_sparse_vector S (page_content doc) of Inl e \<Rightarrow> None | Inr v \<Rightarrow> Some v),
            content = page_content doc,
            point_metadata = metadata doc\<rparr> # new_points S uuid4 (Suc drawn) docs
      else new_points S uuid4 drawn docs)"

text \<open>
  The lengths of the batches, and the number of points the inner loop builds for each
  batch (what \<^verbatim>\<open>upload_points\<close> is called with).
\<close>

definition batch_sizes :: "'a list \<Rightarrow> int \<Rightarrow> nat list" where
  "batch_sizes chunks batch_size =
     (case batched_chunks chunks batch_size of Inl e \<Rightarrow> [] | Inr batches \<Rightarrow> map length batches)"

definition built_per_batch :: "'f settings \<Rightarrow> (nat \<Rightarrow> string) \<Rightarrow> document list \<Rightarrow> int \<Rightarrow> nat list" where
  "built_per_batch S uuid4 chunks batch_size =
     (case batched_chunks chunks batch_size of
        Inl e \<Rightarrow> []
      | Inr batches \<Rightarrow> map (\<lambda>batch. length (fst (embed_batch S uuid4 0 0 batch))) batches)"

section \<open>The vector store as the searches see it\<close>

text \<open>
  The arguments of \<^verbatim>\<open>client.query_points\<close>: the query is a dense vector, a sparse vector
  or a fusion of the prefetched lists; \<^verbatim>\<open>using\<close> names the vector field; an argument that
  a call does not pass is \<open>None\<close> (\<open>[]\<close> for \<^verbatim>\<open>prefetch\<close>).
\<close>

datatype fusion = RRF | DBSF

datatype 'f query_vector =
    NearestDense "'f list"
  | NearestSparse "'f sparse_vector"
  | FusionQuery fusion

record 'f prefetch_query =
  prefetch_vector :: "'f query_vector"
  prefetch_using :: string
  prefetch_limit :: int

datatype match_value = MatchValue string

datatype field_condition = FieldCondition string match_value

record query_filter =
  must :: "field_condition list"

record 'f query_request =
  collection_name :: string
  prefetch :: "'f prefetch_query list"
  query :: "'f query_vector"
  using_field :: "string option"
  filter_arg :: "query_filter option"
  limit :: "int option"

text \<open>
  A point of \<^verbatim>\<open>results.points\<close>, with the payload the indexing stored:
  \<^verbatim>\<open>{"content": ..., "metadata": {...}}\<close>.
\<close>

record 'f scored_point =
  scored_id :: string
  score :: 'f
  payload_content :: string
  payload_metadata :: "(string \<times> string) list"

text \<open>
  The client itself is a parameter of the searches: \<open>query_points request\<close> is the list
  \<^verbatim>\<open>results.points\<close>, or the exception the call raised.  The searches' log lines are left out
  (the lengths they print are those of lists the methods built themselves), except where
  evaluating one can raise.
\<close>

type_synonym 'f query_client = "'f query_request \<Rightarrow> pyerror + 'f scored_point list"

text \<open>
  What Qdrant documents for a filter: a payload key is a path (\<^verbatim>\<open>metadata.pdf_id\<close> is the
  entry \<^verbatim>\<open>pdf_id\<close> of the payload's \<^verbatim>\<open>metadata\<close>), \<^verbatim>\<open>MatchValue\<close> is equality, and
  every condition under \<^verbatim>\<open>must\<close> has to hold.  A client honours filters (limits) when every
  list it returns satisfies the request's filter (has at most \<^verbatim>\<open>limit\<close> points).
\<close>

definition payload_value :: "'f scored_point \<Rightarrow> string \<Rightarrow> string option" where
  "payload_value p k =
     (if k = ''content'' then Some (payload_content p)
      else if take 9 k = ''metadata.'' then map_of (payload_metadata p) (drop 9 k)
      else None)"

fun condition_holds :: "'f scored_point \<Rightarrow> field_condition \<Rightarrow> bool" where
  "condition_holds p (FieldCondition k (MatchValue v)) = (payload_value p k = Some v)"

definition filter_holds :: "query_filter option \<Rightarrow> 'f scored_point \<Rightarrow> bool" where
  "filter_holds f p = (case f of None \<Rightarrow> True | Some flt \<Rightarrow> list_all (condition_holds p) (must flt))"

definition honours_filter :: "'f query_client \<Rightarrow> bool" where
  "honours_filter query_points =
     (\<forall>request points. query_points request = Inr points \<longrightarrow>
        (\<forall>p \<in> set points. filter_holds (filter_arg request) p))"


section \<open>DenseRagService.dense_search\<close>

definition pdf_id_filter :: "string \<Rightarrow> query_filter" where
  "pdf_id_filter pdf_id = \<lparr>must = [FieldCondition ''metadata.pdf_id'' (MatchValue pdf_id)]\<rparr>"

definition dense_search ::
  "'f query_client \<Rightarrow> 'f list \<Rightarrow> string \<Rightarrow> string \<Rightarrow> pyerror + 'f scored_point list" where
  "dense_search query_points query_vec pdf_id brain_id =
     query_points
       \<lparr>collection_name = brain_id,
        prefetch = [],
        query = NearestDense query_vec,
        using_field = Some ''dense'',
        filter_arg = Some \<lparr>must = [FieldCondition ''metadata.pdf_id'' (MatchValue pdf_id)]\<rparr>,
        limit = None\<rparr>"

section \<open>HybridRagService: the searches\<close>

definition sparse_search ::
  "'f settings \<Rightarrow> 'f query_client \<Rightarrow> string \<Rightarrow> string \<Rightarrow> string
     \<Rightarrow> pyerror + 'f scored_point list" where
  "sparse_search S query_points query_text pdf_id brain_id =
     try_except
       (case SPARSE_EMBEDDING_MODEL S [query_text] of
          Inl e \<Rightarrow> Inl e
        | Inr [] \<Rightarrow> Inl (IndexError ''list index out of range'')
        | Inr (sparse_query # _) \<Rightarrow>
            query_points
              \<lparr>collection_name = brain_id,
               prefetch = [],
               query = NearestSparse
                 \<lparr>indices = emb_indices sparse_query, vals = emb_values sparse_query\<rparr>,
               using_field = Some ''sparse'',
               filter_arg =
                 Some \<lparr>must = [FieldCondition ''metadata.pdf_id'' (MatchValue pdf_id)]\<rparr>,
               limit = None\<rparr>)
       raise"


section \<open>generate_response\<close>

text \<open>
  A prompt template as \<^verbatim>\<open>str.format\<close> reads it: literal text and replacement fields.
  \<^verbatim>\<open>template.format(**kwargs)\<close> raises \<^verbatim>\<open>KeyError\<close> at the first field that is not
  among the keyword arguments; substituted text is not scanned again.
\<close>

datatype piece = Lit string | Field string

fun format_template :: "piece list \<Rightarrow> (string \<times> string) list \<Rightarrow> pyerror + string" where
  "format_template [] kwargs = Inr []"
| "format_template (Lit s # ps) kwargs =
     (case format_template ps kwargs of Inl e \<Rightarrow> Inl e | Inr r \<Rightarrow> Inr (s @ r))"
| "format_template (Field f # ps) kwargs =
     (case map_of kwargs f of
        None \<Rightarrow> Inl (KeyError f)
      | Some v \<Rightarrow> (case format_template ps kwargs of Inl e \<Rightarrow> Inl e | Inr r \<Rightarrow> Inr (v @ r)))"

text \<open>The records of the module's logger, in the order they were written.\<close>

datatype log_record = Info string | Warning string | Exception string

text \<open>
  \<^verbatim>\<open>DenseRagService.generate_response\<close>: no handler, no logging.  The template is
  \<^verbatim>\<open>utils.const.prompt_template\<close> (not among the sources: a parameter), the language model is
  \<^verbatim>\<open>self.llm_manager.llm.invoke\<close> (a parameter).
\<close>

definition dense_generate_response ::
  "piece list \<Rightarrow> (string \<Rightarrow> pyerror + 'r) \<Rightarrow> log_record list \<Rightarrow> string \<Rightarrow> string
     \<Rightarrow> (pyerror + 'r) \<times> log_record list" where
  "dense_generate_response prompt_template invoke log question context =
     (case format_template prompt_template [(''question'', question), (''context'', context)] of
        Inl e \<Rightarrow> (Inl e, log)
      | Inr formatted_prompt \<Rightarrow> (invoke formatted_prompt, log))"

text \<open>
  \<^verbatim>\<open>HybridRagService.generate_response\<close>: the body logs \<^verbatim>\<open>"response generated"\<close> after the
  model returned; the handler is \<^verbatim>\<open>except Exception as e: raise e\<close>, which logs nothing.
\<close>

definition hybrid_generate_response ::
  "piece list \<Rightarrow> (string \<Rightarrow> pyerror + 'r) \<Rightarrow> log_record list \<Rightarrow> string \<Rightarrow> string
     \<Rightarrow> (pyerror + 'r) \<times> log_record list" where
  "hybrid_generate_response prompt_template invoke log question context =
     (case
        (case format_template prompt_template [(''question'', question), (''context'', context)] of
           Inl e \<Rightarrow> (Inl e, log)
         | Inr formatted_prompt \<Rightarrow>
             (case invoke formatted_prompt of
                Inl e \<Rightarrow> (Inl e, log)
              | Inr response \<Rightarrow> (Inr response, log @ [Info ''response generated''])))
      of
        (Inl e, log') \<Rightarrow> (raise e, log')
      | (Inr response, log') \<Rightarrow> (Inr response, log'))"

text \<open>
  \<^verbatim>\<open>HyDEService\<close>: the template is the string of \<^verbatim>\<open>__init__\<close>;
  \<^verbatim>\<open>generate_response\<close> has no handler and no logging.
\<close>

definition hyde_head :: string where
  "hyde_head =
     ''You are an AI assistant for answering questions about the various documents from the user.\<newline>''
     @ ''        You are given the following extracted parts of a long document and a question.If you are not provided with any extracted\<newline>''
     @ ''        parts of the documments then try to generate an answer based on your knowledge and facts in your knowledge. Remember to provide a conversational answer.\<newline>''
     @ ''        If you don't know the answer, just say \"Hmm, I'm not sure.\" Don't try to make up an answer.\<newline>''
     @ ''        Question: ''"

definition hyde_mid :: string where
  "hyde_mid = ''\<newline>        =========\<newline>        ''"

definition hyde_tail :: string where
  "hyde_tail = ''\<newline>        =========\<newline>        Answer in Markdown: ''"

definition hyde_prompt_template :: "piece list" where
  "hyde_prompt_template =
     [Lit hyde_head, Field ''question'', Lit hyde_mid, Field ''context'', Lit hyde_tail]"

definition hyde_generate_response ::
  "(string \<Rightarrow> pyerror + 'r) \<Rightarrow> log_record list \<Rightarrow> string \<Rightarrow> string
     \<Rightarrow> (pyerror + 'r) \<times> log_record list" where
  "hyde_generate_response invoke log question context =
     (case format_template hyde_prompt_template [(''question'', question), (''context'', context)] of
        Inl e \<Rightarrow> (Inl e, log)
      | Inr formatted_prompt \<Rightarrow> (invoke formatted_prompt, log))"

section \<open>HyDEService.hyde_search\<close>

text \<open>
  An instance attribute is an option: \<open>None\<close> when no assignment to it was executed, so that
  reading it raises \<^verbatim>\<open>AttributeError\<close>.  \<^verbatim>\<open>__init__\<close> assigns \<^verbatim>\<open>client\<close>,
  \<^verbatim>\<open>llm_manager\<close> and \<^verbatim>\<open>prompt_template\<close>; the assignments to \<^verbatim>\<open>vector_store\<close> and
  \<^verbatim>\<open>retriever\<close> (\<^verbatim>\<open>as_retriever(search_type="mmr")\<close>) are commented out.  A retriever is
  its \<^verbatim>\<open>invoke\<close>.
\<close>

record ('c, 'l, 'd) hyde_service =
  hyde_client :: "'c option"
  hyde_llm_manager :: "'l option"
  hyde_template :: "piece list option"
  retriever :: "(string \<Rightarrow> pyerror + 'd) option"

definition hyde_init :: "'c \<Rightarrow> 'l \<Rightarrow> ('c, 'l, 'd) hyde_service" where
  "hyde_init client llm_manager =
     \<lparr>hyde_client = Some client,
      hyde_llm_manager = Some llm_manager,
      hyde_template = Some hyde_prompt_template,
      retriever = None\<rparr>"

definition hyde_search :: "('c, 'l, 'd) hyde_service \<Rightarrow> string \<Rightarrow> pyerror + 'd" where
  "hyde_search self query_text =
     (case retriever self of
        None \<Rightarrow> Inl (AttributeError ''retriever'')
      | Some invoke \<Rightarrow> invoke query_text)"

section \<open>QdrantClientManager\<close>

text \<open>
  The class has no \<^verbatim>\<open>__init__\<close> and no class attribute: on a new instance neither
  \<^verbatim>\<open>self.client\<close> nor \<^verbatim>\<open>self.logger\<close> exists.  An attribute is \<open>Missing\<close>, bound to
  \<^verbatim>\<open>None\<close>, or bound to an object.
\<close>

datatype 'a attribute = Missing | PyNone | Bound 'a

record 'h qdrant_client_manager =
  client_attr :: "'h attribute"
  logger_attr :: "log_record list option"

definition new_manager :: "'h qdrant_client_manager" where
  "new_manager = \<lparr>client_attr = Missing, logger_attr = None\<rparr>"

text \<open>\<^verbatim>\<open>self.logger.info(msg)\<close>.\<close>

definition logger_info ::
  "'h qdrant_client_manager \<Rightarrow> log_record \<Rightarrow> pyerror + 'h qdrant_client_manager" where
  "logger_info self msg =
     (case logger_attr self of
        None \<Rightarrow> Inl (AttributeError ''logger'')
      | Some records \<Rightarrow> Inr (self\<lparr>logger_attr := Some (records @ [msg])\<rparr>))"

text \<open>
  \<^verbatim>\<open>get_client\<close>.  \<open>connect url\<close> is \<^verbatim>\<open>QdrantClient(url=url)\<close>.  The result is the value
  returned or the exception raised, and the manager afterwards.
\<close>

definition get_client ::
  "(string \<Rightarrow> pyerror + 'h) \<Rightarrow> 'f settings \<Rightarrow> 'h qdrant_client_manager
     \<Rightarrow> (pyerror + 'h) \<times> 'h qdrant_client_manager" where
  "get_client connect S self =
     (case client_attr self of
        Missing \<Rightarrow> (Inl (AttributeError ''client''), self)
      | Bound c \<Rightarrow> (Inr c, self)
      | PyNone \<Rightarrow>
          (case connect (QDRANT_URL S) of
             Inl e \<Rightarrow> (Inl e, self)
           | Inr c \<Rightarrow>
               (case logger_info (self\<lparr>client_attr := Bound c\<rparr>) (Info ''Qdrant client created.'') of
                  Inl e \<Rightarrow> (Inl e, self\<lparr>client_attr := Bound c\<rparr>)
                | Inr self' \<Rightarrow> (Inr c, self'))))"

text \<open>
  The collections of the server behind the client, in the order they were created.
  \<^verbatim>\<open>create_collection\<close> raises when the name is taken.
\<close>

datatype distance = COSINE | EUCLID | DOT | MANHATTAN

record vector_params =
  vector_size :: nat
  vector_distance :: distance

record collection_config =
  vectors_config :: "(string \<times> vector_params) list"
  sparse_vectors_config :: "string list"

type_synonym server = "(string \<times> collection_config) list"

definition collection_exists :: "server \<Rightarrow> string \<Rightarrow> bool" where
  "collection_exists srv name = (map_of srv name \<noteq> None)"

definition create_collection :: "server \<Rightarrow> string \<Rightarrow> collection_config \<Rightarrow> pyerror + server" where
  "create_collection srv name config =
     (if collection_exists srv name then Inl (ExternalError ''collection already exists'')
      else Inr (srv @ [(name, config)]))"

text \<open>\<^verbatim>\<open>_create_collection\<close>.\<close>

definition create_collection_internal :: "'f settings \<Rightarrow> server \<Rightarrow> pyerror + server" where
  "create_collection_internal S srv =
     create_collection srv (HYBRID_COLLECTION S)
       \<lparr>vectors_config = [(''dense'', \<lparr>vector_size = 384, vector_distance = COSINE\<rparr>)],
        sparse_vectors_config = [''sparse'']\<rparr>"

text \<open>
  \<^verbatim>\<open>create_hybrid_collection\<close>: the exception raised (if any), the manager and the server
  afterwards.
\<close>

definition create_hybrid_collection ::
  "(string \<Rightarrow> pyerror + 'h) \<Rightarrow> 'f settings \<Rightarrow> 'h qdrant_client_manager \<times> server
     \<Rightarrow> pyerror option \<times> 'h qdrant_client_manager \<times> server" where
  "create_hybrid_collection connect S state =
     (case state of (self, srv) \<Rightarrow>
        (case get_client connect S self of
           (Inl e, self1) \<Rightarrow> (Some e, self1, srv)
         | (Inr client, self1) \<Rightarrow>
             if \<not> collection_exists srv (HYBRID_COLLECTION S) then
               (case create_collection_internal S srv of
                  Inl e \<Rightarrow> (Some e, self1, srv)
                | Inr srv' \<Rightarrow>
                    (case logger_info self1 (Info (''Created hybrid collection '' @ [CHR 0x27] @ HYBRID_COLLECTION S
                                             @ [CHR 0x27] @ '' in Qdrant.'')) of
                       Inl e \<Rightarrow> (Some e, self1, srv')
                     | Inr self2 \<Rightarrow> (None, self2, srv')))
             else
               (case logger_info self1 (Info (''Hybrid collection '' @ [CHR 0x27] @ HYBRID_COLLECTION S
                                        @ [CHR 0x27] @ '' already exists.'')) of
                  Inl e \<Rightarrow> (Some e, self1, srv)
                | Inr self2 \<Rightarrow> (None, self2, srv))))"

section \<open>Concrete inputs\<close>

text \<open>
  The inputs at which the theorems below are instantiated.
\<close>

subsection \<open>Indexing\<close>

text \<open>
  Embedding models that fail on one text each, a supply of identifiers, an empty store, and
  three upload behaviours: never raising, always raising, and raising once the collection
  holds points.
\<close>

definition demo_settings :: "int settings" where
  "demo_settings =
     \<lparr>DENSE_EMBEDDING_MODEL =
        (\<lambda>txt. if txt = ''no dense'' then Inl (ExternalError ''dense model failed'')
               else Inr [1, 2, 3]),
      SPARSE_EMBEDDING_MODEL =
        (\<lambda>txts. if txts = [''no sparse''] then Inl (ExternalError ''sparse model failed'')
                else Inr (map (\<lambda>t. \<lparr>emb_indices = [7], emb_values = [1]\<rparr>) txts)),
      QDRANT_URL = ''http://localhost:6333'',
      HYBRID_COLLECTION = ''hybrid''\<rparr>"

definition demo_uuid4 :: "nat \<Rightarrow> string" where
  "demo_uuid4 k = ''id-'' @ replicate k CHR ''i''"

definition demo_doc :: "string \<Rightarrow> document" where
  "demo_doc txt = \<lparr>page_content = txt, metadata = [(''pdf_id'', ''doc-42'')]\<rparr>"


definition empty_store :: "int store" where
  "empty_store = (\<lambda>collection. [])"

definition upload_succeeds :: "int upload_oracle" where
  "upload_succeeds = (\<lambda>st collection points. None)"

definition upload_refused :: "int upload_oracle" where
  "upload_refused = (\<lambda>st collection points. Some (ExternalError ''connection refused''))"

definition upload_once :: "int upload_oracle" where
  "upload_once = (\<lambda>st collection points.
     if st collection = [] then None else Some (ExternalError ''connection lost''))"

text \<open>
  130 chunks with pairwise different texts, and models of which only the sparse one fails,
  on the text of the 70th chunk (index 69).
\<close>

definition chunk_no :: "nat \<Rightarrow> document" where
  "chunk_no i = \<lparr>page_content = replicate i CHR ''x'', metadata = [(''pdf_id'', ''doc-42'')]\<rparr>"

definition chunks130 :: "document list" where
  "chunks130 = map chunk_no [0..<130]"

definition settings130 :: "int settings" where
  "settings130 =
     \<lparr>DENSE_EMBEDDING_MODEL = (\<lambda>txt. Inr [1, 2, 3]),
      SPARSE_EMBEDDING_MODEL =
        (\<lambda>txts. if txts = [replicate 69 CHR ''x'']
                then Inl (ExternalError ''sparse model failed'')
                else Inr (map (\<lambda>t. \<lparr>emb_indices = [7], emb_values = [1]\<rparr>) txts)),
      QDRANT_URL = ''http://localhost:6333'',
      HYBRID_COLLECTION = ''hybrid''\<rparr>"

subsection \<open>Searching and answering\<close>

text \<open>
  Three stored points, two of them of document \<^verbatim>\<open>doc-42\<close>; a client that returns the
  points satisfying the filter, cut at the limit (10 when none is given), and refuses a limit
  below 1; a reranker that reverses the list, and \<^verbatim>\<open>len\<close> on lists.
\<close>

definition demo_hit :: "string \<Rightarrow> string \<Rightarrow> int scored_point" where
  "demo_hit name pdf_id =
     \<lparr>scored_id = name, score = 1, payload_content = name,
      payload_metadata = [(''pdf_id'', pdf_id)]\<rparr>"

definition demo_hits :: "int scored_point list" where
  "demo_hits = [demo_hit ''p1'' ''doc-42'', demo_hit ''p2'' ''doc-7'', demo_hit ''p3'' ''doc-42'']"

definition demo_query_points :: "int query_client" where
  "demo_query_points request =
     (case limit request of
        None \<Rightarrow> Inr (take 10 (filter (filter_holds (filter_arg request)) demo_hits))
      | Some n \<Rightarrow>
          if n < 1 then Inl (ExternalError ''limit must be positive'')
          else Inr (take (nat n) (filter (filter_holds (filter_arg request)) demo_hits)))"

definition demo_rerank :: "int scored_point list \<Rightarrow> string \<Rightarrow> pyerror + int scored_point list" where
  "demo_rerank documents query_text = Inr (rev documents)"

definition demo_len :: "int scored_point list \<Rightarrow> pyerror + nat" where
  "demo_len reranked = Inr (length reranked)"

text \<open>
  A template with the two fields, a language model that answers, and one that raises.
\<close>

definition demo_template :: "piece list" where
  "demo_template = [Lit ''Question: '', Field ''question'', Lit '' Context: '', Field ''context'']"

definition demo_llm :: "string \<Rightarrow> pyerror + string" where
  "demo_llm prompt_text = Inr (''Answer to <'' @ prompt_text @ ''>'')"

definition failing_llm :: "string \<Rightarrow> pyerror + string" where
  "failing_llm prompt_text = Inl (ExternalError ''model unavailable'')"

section \<open>Batching\<close>

declare py_range.simps [simp del]

lemma length_slice: "length (slice xs i j) = min (j - i) (length xs - i)"
  by (simp add: slice_def)

lemma concat_slices:
  "concat (map (\<lambda>i. slice xs i (i + s)) (py_range i (length xs) s)) = (if 0 < s then drop i xs else [])"
proof (induction i "length xs" s rule: py_range.induct)
  case (1 i s)
  show ?case
  proof (cases "0 < s \<and> i < length xs")
    case True
    then have "concat (map (\<lambda>i. slice xs i (i + s)) (py_range i (length xs) s))
        = slice xs i (i + s) @ drop (i + s) xs"
      using 1 by (subst py_range.simps) simp
    also have "\<dots> = drop i xs"
    proof -
      have "slice xs i (i + s) = take s (drop i xs)" by (simp add: slice_def)
      moreover have "drop (i + s) xs = drop s (drop i xs)" by (simp add: add.commute)
      ultimately show ?thesis by (simp only: append_take_drop_id)
    qed
    finally show ?thesis using True by simp
  next
    case False
    then show ?thesis by (subst py_range.simps) auto
  qed
qed

lemma slices_shape:
  "0 < s \<Longrightarrow> bss = map (\<lambda>i. slice xs i (i + s)) (py_range i (length xs) s) \<Longrightarrow>
     (\<forall>b \<in> set (butlast bss). length b = s) \<and>
     (bss \<noteq> [] \<longrightarrow> length (last bss) =
        (if (length xs - i) mod s = 0 then s else (length xs - i) mod s)) \<and>
     (bss = [] \<longleftrightarrow> length xs \<le> i)"
proof (induction i "length xs" s arbitrary: bss rule: py_range.induct)
  case (1 i s)
  show ?case
  proof (cases "i < length xs")
    case False
    then show ?thesis using 1(2,3) by (subst (asm) py_range.simps) auto
  next
    case True
    define rest where "rest = map (\<lambda>i. slice xs i (i + s)) (py_range (i + s) (length xs) s)"
    have bss: "bss = slice xs i (i + s) # rest"
      using 1(2,3) True unfolding rest_def by (subst (asm) py_range.simps) simp
    have IH: "(\<forall>b \<in> set (butlast rest). length b = s) \<and>
     (rest \<noteq> [] \<longrightarrow> length (last rest) =
        (if (length xs - (i + s)) mod s = 0 then s else (length xs - (i + s)) mod s)) \<and>
     (rest = [] \<longleftrightarrow> length xs \<le> i + s)"
      using 1(1)[OF _ 1(2) rest_def] True 1(2) by simp
    show ?thesis
    proof (cases "length xs \<le> i + s")
      case True
      then have r: "rest = []" using IH by simp
      have "length (slice xs i (i + s)) = length xs - i"
        using True by (simp add: length_slice)
      moreover have "(if (length xs - i) mod s = 0 then s else (length xs - i) mod s) = length xs - i"
        using True \<open>i < length xs\<close> 1(2)
        by (cases "length xs - i = s") auto
      ultimately show ?thesis using bss r \<open>i < length xs\<close> by simp
    next
      case False
      then have r: "rest \<noteq> []" using IH by simp
      have l: "length (slice xs i (i + s)) = s"
        using False by (simp add: length_slice)
      have m: "(length xs - (i + s)) mod s = (length xs - i) mod s"
        using False by (metis diff_diff_left le_diff_conv le_mod_geq nat_le_linear add.commute)
      show ?thesis using bss r l m IH \<open>i < length xs\<close> by (auto simp: butlast.simps)
    qed
  qed
qed

lemma batched_chunks_pos:
  "0 < batch_size \<Longrightarrow> batched_chunks chunks batch_size =
     Inr (map (\<lambda>i. slice chunks i (i + nat batch_size)) (py_range 0 (length chunks) (nat batch_size)))"
  by (simp add: batched_chunks_def)

lemma concat_batched_chunks:
  "0 < batch_size \<Longrightarrow> batched_chunks chunks batch_size = Inr batches \<Longrightarrow> concat batches = chunks"
  using concat_slices[of chunks "nat batch_size" 0] by (auto simp: batched_chunks_pos)

text \<open>
  Claim C2.  For a positive \<^verbatim>\<open>batch_size\<close> the comprehension returns a list of batches
  whose concatenation is the input (so the order is kept and every chunk is in exactly one
  batch, at its own position); every batch but the last has length \<^verbatim>\<open>batch_size\<close>; the
  last has length \<^verbatim>\<open>len(chunks) mod batch_size\<close>, or \<^verbatim>\<open>batch_size\<close> when that is zero;
  and there is no batch at all exactly when there is no chunk.
\<close>

theorem batched_chunks_partition:
  assumes "0 < batch_size"
  shows "\<exists>batches. batched_chunks chunks batch_size = Inr batches \<and>
           concat batches = chunks \<and>
           (\<forall>b \<in> set (butlast batches). int (length b) = batch_size) \<and>
           (batches \<noteq> [] \<longrightarrow> int (length (last batches)) =
              (if int (length chunks) mod batch_size = 0 then batch_size
               else int (length chunks) mod batch_size)) \<and>
           (batches = [] \<longleftrightarrow> chunks = [])"
proof -
  define s where "s = nat batch_size"
  define batches where "batches = map (\<lambda>i. slice chunks i (i + s)) (py_range 0 (length chunks) s)"
  have s: "0 < s" "int s = batch_size" using assms by (simp_all add: s_def)
  have eq: "batched_chunks chunks batch_size = Inr batches"
    using assms by (simp add: batched_chunks_pos batches_def s_def)
  have shape: "(\<forall>b \<in> set (butlast batches). length b = s) \<and>
     (batches \<noteq> [] \<longrightarrow> length (last batches) =
        (if (length chunks - 0) mod s = 0 then s else (length chunks - 0) mod s)) \<and>
     (batches = [] \<longleftrightarrow> length chunks \<le> 0)"
    by (rule slices_shape[OF s(1) batches_def])
  have m: "int (length chunks) mod batch_size = int (length chunks mod s)"
    using s by (simp add: zmod_int)
  have "concat batches = chunks"
    using concat_batched_chunks[OF assms eq] .
  moreover have "\<forall>b \<in> set (butlast batches). int (length b) = batch_size"
    using shape s by auto
  moreover have "batches \<noteq> [] \<longrightarrow> int (length (last batches)) =
              (if int (length chunks) mod batch_size = 0 then batch_size
               else int (length chunks) mod batch_size)"
    using shape s unfolding m by auto
  moreover have "batches = [] \<longleftrightarrow> chunks = []"
    using shape by simp
  ultimately show ?thesis using eq by blast
qed

theorem batched_chunks_partition_witness:
  "(0::int) < 2 \<and> batched_chunks [10, 20, 30, 40, 50 :: nat] 2 = Inr [[10, 20], [30, 40], [50]] \<and>
   (\<exists>batches. batched_chunks [10, 20, 30, 40, 50 :: nat] 2 = Inr batches \<and>
           concat batches = [10, 20, 30, 40, 50] \<and>
           (\<forall>b \<in> set (butlast batches). int (length b) = 2) \<and>
           (batches \<noteq> [] \<longrightarrow> int (length (last batches)) = 1) \<and>
           batches \<noteq> [])"
  using batched_chunks_partition[of 2 "[10, 20, 30, 40, 50 :: nat]"]
  by (simp add: batched_chunks_def py_range.simps slice_def)

section \<open>The indexing loops\<close>

lemmas demo_simps = demo_settings_def demo_uuid4_def demo_doc_def empty_store_def
  upload_succeeds_def upload_refused_def upload_once_def
  create_dense_vector_def create_sparse_vector_def try_except_def raise_def
  embeds_ok_def dense_failed_def sparse_failed_def

lemmas run_simps = index_hybrid_collection_def batched_chunks_def py_range.simps slice_def
  embed_batch_def embed_doc_def upload_points_def Let_def

lemma embed_doc_ok:
  "embeds_ok S doc \<Longrightarrow>
   embed_doc S uuid4 (pts, n, bad) doc = (pts @ new_points S uuid4 n [doc], Suc n, bad)"
  by (auto simp: embed_doc_def embeds_ok_def dense_failed_def sparse_failed_def Let_def
           split: sum.splits)

lemma embed_doc_failed:
  "\<not> embeds_ok S doc \<Longrightarrow> embed_doc S uuid4 (pts, n, bad) doc = (pts, n, Suc bad)"
  by (auto simp: embed_doc_def embeds_ok_def dense_failed_def sparse_failed_def Let_def
           split: sum.splits)

lemma foldl_embed_doc:
  "foldl (embed_doc S uuid4) (pts, n, bad) batch =
     (pts @ new_points S uuid4 n batch,
      n + length (filter (embeds_ok S) batch),
      bad + length (filter (\<lambda>d. \<not> embeds_ok S d) batch))"
proof (induction batch arbitrary: pts n bad)
  case Nil
  show ?case by simp
next
  case (Cons doc batch)
  show ?case
  proof (cases "embeds_ok S doc")
    case True
    then show ?thesis using Cons[of "pts @ new_points S uuid4 n [doc]" "Suc n" bad]
      by (simp add: embed_doc_ok)
  next
    case False
    then show ?thesis using Cons[of pts n "Suc bad"]
      by (simp add: embed_doc_failed)
  qed
qed

lemma embed_batch_eq:
  "embed_batch S uuid4 n bad batch =
     (new_points S uuid4 n batch,
      n + length (filter (embeds_ok S) batch),
      bad + length (filter (\<lambda>d. \<not> embeds_ok S d) batch))"
  by (simp add: embed_batch_def foldl_embed_doc)

lemma doc_of_new_points: "map doc_of (new_points S uuid4 n docs) = filter (embeds_ok S) docs"
  by (induction docs arbitrary: n) (auto simp: doc_of_def)

lemma length_new_points: "length (new_points S uuid4 n docs) = length (filter (embeds_ok S) docs)"
  by (metis doc_of_new_points length_map)

lemma new_points_append:
  "new_points S uuid4 n (xs @ ys) =
     new_points S uuid4 n xs @ new_points S uuid4 (n + length (filter (embeds_ok S) xs)) ys"
  by (induction xs arbitrary: n) auto

lemma new_points_entries:
  "p \<in> set (new_points S uuid4 n docs) \<Longrightarrow> dense_entry p \<noteq> None \<and> sparse_entry p \<noteq> None"
  by (induction docs arbitrary: n)
     (auto simp: embeds_ok_def dense_failed_def sparse_failed_def split: if_splits sum.splits)

lemma new_points_Nil_iff: "new_points S uuid4 n docs = [] \<longleftrightarrow> filter (embeds_ok S) docs = []"
  by (metis length_new_points length_0_conv)

lemma new_points_sound:
  assumes "p \<in> set (new_points S uuid4 n docs)"
  shows "dense_entry p \<noteq> None \<and> sparse_entry p \<noteq> None \<and> doc_of p \<in> set docs \<and>
         embeds_ok S (doc_of p)"
proof -
  have "doc_of p \<in> set (map doc_of (new_points S uuid4 n docs))" using assms by simp
  then have "doc_of p \<in> set (filter (embeds_ok S) docs)" by (simp only: doc_of_new_points)
  then show ?thesis using new_points_entries[OF assms] by simp
qed

text \<open>
  One round of the outer loop: it goes on when the batch built no point or the upload did
  not raise, and it ends the loop when the upload raised.
\<close>

lemma process_batches_step_ok:
  assumes "new_points S uuid4 (uuids_drawn st) batch = [] \<or>
           upload_error (store st) brain_id (new_points S uuid4 (uuids_drawn st) batch) = None"
  shows "process_batches S uuid4 upload_error brain_id batch_size st (batch # rest) =
     process_batches S uuid4 upload_error brain_id batch_size
       \<lparr>store = (store st)(brain_id := store st brain_id
                         @ new_points S uuid4 (uuids_drawn st) batch),
        uuids_drawn = uuids_drawn st + length (filter (embeds_ok S) batch),
        invalid_chunks = invalid_chunks st
                + length (filter (\<lambda>d. \<not> embeds_ok S d) batch)\<rparr> rest"
proof (cases st)
  case (fields st0 n bad)
  show ?thesis
  proof (cases "new_points S uuid4 n batch = []")
    case True
    then have "filter (embeds_ok S) batch = []" by (simp add: new_points_Nil_iff)
    then show ?thesis using True fields by (simp add: embed_batch_eq)
  next
    case False
    then show ?thesis using assms fields by (simp add: embed_batch_eq upload_points_def)
  qed
qed

lemma process_batches_step_error:
  assumes "new_points S uuid4 (uuids_drawn st) batch \<noteq> []"
    and "upload_error (store st) brain_id (new_points S uuid4 (uuids_drawn st) batch) = Some e"
  shows "process_batches S uuid4 upload_error brain_id batch_size st (batch # rest) =
     (Some e, st\<lparr>uuids_drawn := uuids_drawn st + length (filter (embeds_ok S) batch),
                   invalid_chunks := invalid_chunks st
                     + length (filter (\<lambda>d. \<not> embeds_ok S d) batch)\<rparr>)"
  using assms by (simp add: embed_batch_eq upload_points_def)

lemma process_batches_no_error:
  assumes "\<And>s c ps. upload_error s c ps = None"
  shows "process_batches S uuid4 upload_error brain_id batch_size st batches =
     (None, \<lparr>store = (store st)(brain_id := store st brain_id
                         @ new_points S uuid4 (uuids_drawn st) (concat batches)),
             uuids_drawn = uuids_drawn st + length (filter (embeds_ok S) (concat batches)),
             invalid_chunks = invalid_chunks st
                + length (filter (\<lambda>d. \<not> embeds_ok S d) (concat batches))\<rparr>)"
proof (induction batches arbitrary: st)
  case Nil
  show ?case by simp
next
  case (Cons batch rest)
  show ?case
    by (subst process_batches_step_ok) (simp_all add: assms Cons new_points_append fun_eq_iff)
qed

lemma process_batches_prefix:
  "process_batches S uuid4 upload_error brain_id batch_size st batches = (r, st') \<Longrightarrow>
   \<exists>k \<le> length batches.
     store st' = (store st)(brain_id := store st brain_id
                         @ new_points S uuid4 (uuids_drawn st) (concat (take k batches))) \<and>
     (r = None \<longrightarrow> k = length batches \<and>
        invalid_chunks st' = invalid_chunks st + length (filter (\<lambda>d. \<not> embeds_ok S d) (concat batches)))"
proof (induction batches arbitrary: st)
  case Nil
  then show ?case by auto
next
  case (Cons batch rest)
  let ?pts = "new_points S uuid4 (uuids_drawn st) batch"
  let ?n = "uuids_drawn st + length (filter (embeds_ok S) batch)"
  let ?bad = "invalid_chunks st + length (filter (\<lambda>d. \<not> embeds_ok S d) batch)"
  show ?case
  proof (cases "?pts = [] \<or> upload_error (store st) brain_id ?pts = None")
    case False
    then obtain e where "?pts \<noteq> []" "upload_error (store st) brain_id ?pts = Some e" by auto
    from process_batches_step_error[where S=S and ?uuid4.0=uuid4 and st=st and batch=batch
        and upload_error=upload_error and brain_id=brain_id, OF this] Cons.prems
    have "store st' = store st" "r \<noteq> None" by auto
    then show ?thesis by (intro exI[of _ 0]) simp
  next
    case True
    define st1 where "st1 = \<lparr>store = (store st)(brain_id := store st brain_id @ ?pts),
        uuids_drawn = ?n, invalid_chunks = ?bad\<rparr>"
    have "process_batches S uuid4 upload_error brain_id batch_size st1 rest = (r, st')"
      using Cons.prems process_batches_step_ok[where S=S and ?uuid4.0=uuid4 and st=st
          and batch=batch and upload_error=upload_error and brain_id=brain_id, OF True]
      unfolding st1_def by simp
    from Cons.IH[OF this] obtain k where k: "k \<le> length rest"
      "store st' = (store st1)(brain_id := store st1 brain_id
                         @ new_points S uuid4 (uuids_drawn st1) (concat (take k rest)))"
      "r = None \<longrightarrow> k = length rest \<and>
        invalid_chunks st' = invalid_chunks st1 + length (filter (\<lambda>d. \<not> embeds_ok S d) (concat rest))"
      by blast
    show ?thesis
      using k by (intro exI[of _ "Suc k"]) (auto simp: st1_def new_points_append)
  qed
qed


lemma index_no_error:
  assumes "0 < batch_size" and "\<And>s c ps. upload_error s c ps = None"
  shows "index_hybrid_collection S uuid4 upload_error store0 drawn0 chunks brain_id batch_size =
     \<lparr>returned = (filter (\<lambda>d. \<not> embeds_ok S d) chunks = []),
      caught = None,
      final = \<lparr>store = store0(brain_id := store0 brain_id @ new_points S uuid4 drawn0 chunks),
               uuids_drawn = drawn0 + length (filter (embeds_ok S) chunks),
               invalid_chunks = length (filter (\<lambda>d. \<not> embeds_ok S d) chunks)\<rparr>\<rparr>"
proof -
  obtain batches where b: "batched_chunks chunks batch_size = Inr batches"
    using assms(1) by (simp add: batched_chunks_pos)
  have c: "concat batches = chunks" by (rule concat_batched_chunks[OF assms(1) b])
  show ?thesis
    unfolding index_hybrid_collection_def Let_def b
    by (simp add: process_batches_no_error[of upload_error, OF assms(2)] c)
qed

lemma index_store_general:
  "\<exists>docs. store (final (index_hybrid_collection S uuid4 upload_error store0 drawn0 chunks
                  brain_id batch_size))
       = store0(brain_id := store0 brain_id @ new_points S uuid4 drawn0 docs) \<and>
     set docs \<subseteq> set chunks"
proof (cases "batched_chunks chunks batch_size")
  case (Inl e)
  then show ?thesis
    by (intro exI[of _ "[]"]) (simp add: index_hybrid_collection_def)
next
  case (Inr batches)
  have sub: "set (concat batches) \<subseteq> set chunks"
  proof (cases "0 < batch_size")
    case True
    then show ?thesis using concat_batched_chunks[OF True Inr] by simp
  next
    case False
    then have "batches = []" using Inr by (auto simp: batched_chunks_def split: if_splits)
    then show ?thesis by simp
  qed
  let ?st0 = "\<lparr>store = store0, uuids_drawn = drawn0, invalid_chunks = 0\<rparr>"
  obtain r st' where p: "process_batches S uuid4 upload_error brain_id batch_size ?st0 batches = (r, st')"
    by (cases "process_batches S uuid4 upload_error brain_id batch_size ?st0 batches") auto
  from process_batches_prefix[OF p] obtain k where
    k: "store st' = store0(brain_id := store0 brain_id
                         @ new_points S uuid4 drawn0 (concat (take k batches)))"
    by auto
  have "set (concat (take k batches)) \<subseteq> set (concat batches)"
    by (auto dest: in_set_takeD)
  moreover have "store (final (index_hybrid_collection S uuid4 upload_error store0 drawn0 chunks
                  brain_id batch_size)) = store st'"
    using Inr p by (cases r) (simp_all add: index_hybrid_collection_def)
  ultimately show ?thesis using k sub by (intro exI[of _ "concat (take k batches)"]) auto
qed

lemma index_caught_none:
  assumes "0 < batch_size"
    and "caught (index_hybrid_collection S uuid4 upload_error store0 drawn0 chunks brain_id
                   batch_size) = None"
  shows "index_hybrid_collection S uuid4 upload_error store0 drawn0 chunks brain_id batch_size =
     \<lparr>returned = (filter (\<lambda>d. \<not> embeds_ok S d) chunks = []),
      caught = None,
      final = final (index_hybrid_collection S uuid4 upload_error store0 drawn0 chunks brain_id
                       batch_size)\<rparr>"
    and "store (final (index_hybrid_collection S uuid4 upload_error store0 drawn0 chunks brain_id
                       batch_size))
           = store0(brain_id := store0 brain_id @ new_points S uuid4 drawn0 chunks)"
    and "invalid_chunks (final (index_hybrid_collection S uuid4 upload_error store0 drawn0 chunks
                       brain_id batch_size))
           = length (filter (\<lambda>d. \<not> embeds_ok S d) chunks)"
proof -
  let ?st0 = "\<lparr>store = store0, uuids_drawn = drawn0, invalid_chunks = 0\<rparr>"
  obtain batches where b: "batched_chunks chunks batch_size = Inr batches"
    using assms(1) by (simp add: batched_chunks_pos)
  have c: "concat batches = chunks" by (rule concat_batched_chunks[OF assms(1) b])
  obtain r st' where p:
    "process_batches S uuid4 upload_error brain_id batch_size ?st0 batches = (r, st')"
    by (cases "process_batches S uuid4 upload_error brain_id batch_size ?st0 batches") auto
  have r: "r = None"
    using assms(2) b p by (cases r) (simp_all add: index_hybrid_collection_def)
  have f: "final (index_hybrid_collection S uuid4 upload_error store0 drawn0 chunks brain_id
                       batch_size) = st'"
    using b p r by (simp add: index_hybrid_collection_def)
  from process_batches_prefix[OF p] r c obtain k where
    k: "k = length batches"
       "store st' = store0(brain_id := store0 brain_id
                         @ new_points S uuid4 drawn0 (concat (take k batches)))"
       "invalid_chunks st' = length (filter (\<lambda>d. \<not> embeds_ok S d) chunks)"
    by auto
  show "store (final (index_hybrid_collection S uuid4 upload_error store0 drawn0 chunks brain_id
                       batch_size))
           = store0(brain_id := store0 brain_id @ new_points S uuid4 drawn0 chunks)"
    using k c f by simp
  show "invalid_chunks (final (index_hybrid_collection S uuid4 upload_error store0 drawn0 chunks
                       brain_id batch_size))
           = length (filter (\<lambda>d. \<not> embeds_ok S d) chunks)"
    using k f by simp
  show "index_hybrid_collection S uuid4 upload_error store0 drawn0 chunks brain_id batch_size =
     \<lparr>returned = (filter (\<lambda>d. \<not> embeds_ok S d) chunks = []),
      caught = None,
      final = final (index_hybrid_collection S uuid4 upload_error store0 drawn0 chunks brain_id
                       batch_size)\<rparr>"
    using b p r k(3) by (simp add: index_hybrid_collection_def)
qed



lemma process_batches_none_step:
  assumes "process_batches S uuid4 upload_error brain_id batch_size st (batch # rest) = (None, st')"
    and "new_points S uuid4 (uuids_drawn st) batch \<noteq> []"
  shows "upload_points upload_error (store st) brain_id
            (new_points S uuid4 (uuids_drawn st) batch) batch_size
          = Inr ((store st)(brain_id := store st brain_id
                    @ new_points S uuid4 (uuids_drawn st) batch))"
    and "process_batches S uuid4 upload_error brain_id batch_size
           \<lparr>store = (store st)(brain_id := store st brain_id
                         @ new_points S uuid4 (uuids_drawn st) batch),
            uuids_drawn = uuids_drawn st + length (filter (embeds_ok S) batch),
            invalid_chunks = invalid_chunks st
                + length (filter (\<lambda>d. \<not> embeds_ok S d) batch)\<rparr> rest = (None, st')"
proof -
  have n: "upload_error (store st) brain_id (new_points S uuid4 (uuids_drawn st) batch) = None"
  proof (cases "upload_error (store st) brain_id (new_points S uuid4 (uuids_drawn st) batch)")
    case None
    then show ?thesis .
  next
    case (Some e)
    from process_batches_step_error[where S=S and ?uuid4.0=uuid4 and st=st and batch=batch
        and upload_error=upload_error and brain_id=brain_id, OF assms(2) Some] assms(1)
    show ?thesis by simp
  qed
  then show "upload_points upload_error (store st) brain_id
            (new_points S uuid4 (uuids_drawn st) batch) batch_size
          = Inr ((store st)(brain_id := store st brain_id
                    @ new_points S uuid4 (uuids_drawn st) batch))"
    by (simp add: upload_points_def)
  show "process_batches S uuid4 upload_error brain_id batch_size
           \<lparr>store = (store st)(brain_id := store st brain_id
                         @ new_points S uuid4 (uuids_drawn st) batch),
            uuids_drawn = uuids_drawn st + length (filter (embeds_ok S) batch),
            invalid_chunks = invalid_chunks st
                + length (filter (\<lambda>d. \<not> embeds_ok S d) batch)\<rparr> rest = (None, st')"
    using process_batches_step_ok[where S=S and ?uuid4.0=uuid4 and st=st
          and batch=batch and upload_error=upload_error and brain_id=brain_id
          and batch_size=batch_size and rest=rest] n assms(1)
    by simp
qed

text \<open>
  Claim C1, as amended.  In every call the collection afterwards is the collection before
  followed by new points, and each new point has both vectors present and was built from a
  chunk of the input whose two embeddings were computed without an exception.  When the
  batch size is positive and no \<^verbatim>\<open>upload_points\<close> call of the run raises (no exception
  reaches the outer handler), the new points are, in order, exactly the chunks whose two
  embeddings succeeded, and \<^verbatim>\<open>invalid_chunks\<close> ends as the number of chunks for which at
  least one embedding raised.
\<close>

theorem index_uploads_embedded_chunks:
  "\<exists>new. store (final (index_hybrid_collection S uuid4 upload_error store0 drawn0 chunks
                  brain_id batch_size))
            = store0(brain_id := store0 brain_id @ new) \<and>
     (\<forall>p \<in> set new. dense_entry p \<noteq> None \<and> sparse_entry p \<noteq> None \<and>
                     doc_of p \<in> set chunks \<and> embeds_ok S (doc_of p)) \<and>
     (0 < batch_size \<and>
      caught (index_hybrid_collection S uuid4 upload_error store0 drawn0 chunks brain_id
                batch_size) = None \<longrightarrow>
        map doc_of new = filter (embeds_ok S) chunks \<and>
        invalid_chunks (final (index_hybrid_collection S uuid4 upload_error store0 drawn0 chunks
                  brain_id batch_size))
          = length (filter (\<lambda>d. dense_failed S d \<or> sparse_failed S d) chunks))"
proof (cases "0 < batch_size \<and>
      caught (index_hybrid_collection S uuid4 upload_error store0 drawn0 chunks brain_id
                batch_size) = None")
  case True
  have e: "(\<lambda>d. \<not> embeds_ok S d) = (\<lambda>d. dense_failed S d \<or> sparse_failed S d)"
    by (auto simp: embeds_ok_def)
  show ?thesis
    using index_caught_none(2,3)[of batch_size S uuid4 upload_error store0 drawn0 chunks brain_id]
      True
    unfolding e
    by (intro exI[of _ "new_points S uuid4 drawn0 chunks"])
       (auto simp: doc_of_new_points dest: new_points_sound)
next
  case False
  obtain docs where d: "store (final (index_hybrid_collection S uuid4 upload_error store0 drawn0
        chunks brain_id batch_size))
       = store0(brain_id := store0 brain_id @ new_points S uuid4 drawn0 docs)"
     "set docs \<subseteq> set chunks"
    using index_store_general by blast
  show ?thesis
    using d False by (intro exI[of _ "new_points S uuid4 drawn0 docs"])
      (auto dest: new_points_sound)
qed

theorem index_uploads_embedded_chunks_witness:
  "caught (index_hybrid_collection demo_settings demo_uuid4 upload_once empty_store 0
             [demo_doc ''a'', demo_doc ''no dense'', demo_doc ''no sparse'', demo_doc ''b'']
             ''brain'' 64) = None \<and>
   (\<exists>new. store (final (index_hybrid_collection demo_settings demo_uuid4 upload_once empty_store 0
             [demo_doc ''a'', demo_doc ''no dense'', demo_doc ''no sparse'', demo_doc ''b'']
             ''brain'' 64))
          = empty_store(''brain'' := empty_store ''brain'' @ new) \<and>
     map doc_of new = [demo_doc ''a'', demo_doc ''b''] \<and>
     invalid_chunks (final (index_hybrid_collection demo_settings demo_uuid4 upload_once
             empty_store 0
             [demo_doc ''a'', demo_doc ''no dense'', demo_doc ''no sparse'', demo_doc ''b'']
             ''brain'' 64)) = 2)"
proof -
  have c: "caught (index_hybrid_collection demo_settings demo_uuid4 upload_once empty_store 0
             [demo_doc ''a'', demo_doc ''no dense'', demo_doc ''no sparse'', demo_doc ''b'']
             ''brain'' 64) = None"
    by (simp add: demo_simps run_simps)
  have h: "(0::int) < 64" by simp
  have f: "filter (embeds_ok demo_settings)
             [demo_doc ''a'', demo_doc ''no dense'', demo_doc ''no sparse'', demo_doc ''b'']
           = [demo_doc ''a'', demo_doc ''b'']"
    by (simp add: demo_simps)
  have g: "length (filter (\<lambda>d. dense_failed demo_settings d \<or> sparse_failed demo_settings d)
             [demo_doc ''a'', demo_doc ''no dense'', demo_doc ''no sparse'', demo_doc ''b'']) = 2"
    by (simp add: demo_simps)
  from index_uploads_embedded_chunks[of demo_settings demo_uuid4 upload_once empty_store 0
             "[demo_doc ''a'', demo_doc ''no dense'', demo_doc ''no sparse'', demo_doc ''b'']"
             "''brain''" 64]
  obtain new where
    "store (final (index_hybrid_collection demo_settings demo_uuid4 upload_once empty_store 0
             [demo_doc ''a'', demo_doc ''no dense'', demo_doc ''no sparse'', demo_doc ''b'']
             ''brain'' 64))
          = empty_store(''brain'' := empty_store ''brain'' @ new)"
    "map doc_of new = [demo_doc ''a'', demo_doc ''b'']"
    "invalid_chunks (final (index_hybrid_collection demo_settings demo_uuid4 upload_once
             empty_store 0
             [demo_doc ''a'', demo_doc ''no dense'', demo_doc ''no sparse'', demo_doc ''b'']
             ''brain'' 64)) = 2"
    using h c unfolding f g by (elim exE conjE impE) simp_all
  then show ?thesis using c by (intro conjI exI[of _ new]) simp_all
qed

text \<open>
  Claim C1 as stated fails when \<^verbatim>\<open>upload_points\<close> raises: here both embeddings of the
  only chunk succeed, the upload raises, the outer handler returns, and the collection
  holds no point for the chunk.
\<close>

theorem index_upload_refused_counterexample:
  "embeds_ok demo_settings (demo_doc ''a'') \<and>
   store (final (index_hybrid_collection demo_settings demo_uuid4 upload_refused empty_store 0
            [demo_doc ''a''] ''brain'' 64)) ''brain'' = []"
  by (simp add: demo_simps run_simps)




lemma batched_chunks_130:
  assumes "length chunks = 130"
  shows "batched_chunks chunks 64 =
           Inr [take 64 chunks, take 64 (drop 64 chunks), drop 128 chunks]"
  using assms by (simp add: batched_chunks_def py_range.simps slice_def)

lemma length_filter_none:
  assumes "\<And>i. i < length xs \<Longrightarrow> \<not> Q (xs ! i)"
  shows "length (filter Q xs) = 0"
  using assms by (auto simp: filter_empty_conv in_set_conv_nth)

lemma length_filter_single:
  assumes "k < length xs" and "\<And>i. i < length xs \<Longrightarrow> Q (xs ! i) \<longleftrightarrow> i = k"
  shows "length (filter Q xs) = 1"
proof -
  have "{i. i < length xs \<and> Q (xs ! i)} = {k}" using assms by auto
  then show ?thesis by (simp add: length_filter_conv_card)
qed

lemma length_filter_ok:
  "length (filter (embeds_ok S) xs) = length xs - length (filter (\<lambda>d. \<not> embeds_ok S d) xs)"
  using sum_length_filter_compl[of "embeds_ok S" xs] by simp

lemma filter_all_but_one:
  assumes "k < length xs" and "\<And>i. i < length xs \<Longrightarrow> (\<not> P (xs ! i)) = (i = k)"
  shows "filter P xs = take k xs @ drop (Suc k) xs"
proof -
  have xs: "xs = take k xs @ xs ! k # drop (Suc k) xs"
    by (rule id_take_nth_drop[OF assms(1)])
  have p: "P (xs ! i)" if "i < length xs" "i \<noteq> k" for i
    using assms(2)[OF that(1)] that(2) by blast
  have a: "\<forall>x \<in> set (take k xs). P x"
  proof
    fix x assume "x \<in> set (take k xs)"
    then obtain i where "i < length (take k xs)" "x = take k xs ! i"
      by (auto simp: in_set_conv_nth)
    then show "P x" using p[of i] assms(1) by simp
  qed
  have b: "\<not> P (xs ! k)" using assms by simp
  have c: "\<forall>x \<in> set (drop (Suc k) xs). P x"
  proof
    fix x assume "x \<in> set (drop (Suc k) xs)"
    then obtain i where "i < length (drop (Suc k) xs)" "x = drop (Suc k) xs ! i"
      by (auto simp: in_set_conv_nth)
    then show "P x" using p[of "Suc k + i"] assms(1) by simp
  qed
  have "filter P xs = filter P (take k xs @ xs ! k # drop (Suc k) xs)"
    by (rule arg_cong[OF xs])
  then show ?thesis using a b c by simp
qed

lemma index_130_one_failure:
  assumes len: "length chunks = 130"
    and k: "64 \<le> k" "k < 128"
    and fail: "\<And>i. i < 130 \<Longrightarrow> (\<not> embeds_ok S (chunks ! i)) = (i = k)"
    and up: "\<And>s c ps. upload_error s c ps = None"
  shows "batch_sizes chunks 64 = [64, 64, 2]"
    and "built_per_batch S uuid4 chunks 64 = [64, 63, 2]"
    and "invalid_chunks (final (index_hybrid_collection S uuid4 upload_error store0 drawn0 chunks
           brain_id 64)) = 1"
    and "\<not> returned (index_hybrid_collection S uuid4 upload_error store0 drawn0 chunks
           brain_id 64)"
proof -
  show "batch_sizes chunks 64 = [64, 64, 2]"
    using len by (simp add: batch_sizes_def batched_chunks_130)
  have b1: "length (filter (\<lambda>d. \<not> embeds_ok S d) (take 64 chunks)) = 0"
    using len k fail by (intro length_filter_none) simp
  have b2: "length (filter (\<lambda>d. \<not> embeds_ok S d) (take 64 (drop 64 chunks))) = 1"
    using len k fail by (intro length_filter_single[where k = "k - 64"]) auto
  have b3: "length (filter (\<lambda>d. \<not> embeds_ok S d) (drop 128 chunks)) = 0"
    using len k fail by (intro length_filter_none) simp
  show "built_per_batch S uuid4 chunks 64 = [64, 63, 2]"
    using len b1 b2 b3
    by (simp add: built_per_batch_def batched_chunks_130 embed_batch_eq length_new_points
                  length_filter_ok)
  have all: "length (filter (\<lambda>d. \<not> embeds_ok S d) chunks) = 1"
    using len k fail by (intro length_filter_single[where k = k]) auto
  have eq: "index_hybrid_collection S uuid4 upload_error store0 drawn0 chunks brain_id 64 =
     \<lparr>returned = (filter (\<lambda>d. \<not> embeds_ok S d) chunks = []),
      caught = None,
      final = \<lparr>store = store0(brain_id := store0 brain_id @ new_points S uuid4 drawn0 chunks),
               uuids_drawn = drawn0 + length (filter (embeds_ok S) chunks),
               invalid_chunks = length (filter (\<lambda>d. \<not> embeds_ok S d) chunks)\<rparr>\<rparr>"
    by (intro index_no_error up) simp
  show "invalid_chunks (final (index_hybrid_collection S uuid4 upload_error store0 drawn0 chunks
           brain_id 64)) = 1"
    unfolding eq using all by simp
  show "\<not> returned (index_hybrid_collection S uuid4 upload_error store0 drawn0 chunks
           brain_id 64)"
    unfolding eq using all by auto
qed

lemma chunks130_facts:
  "length chunks130 = 130"
  "i < 130 \<Longrightarrow> \<not> dense_failed settings130 (chunks130 ! i)"
  "i < 130 \<Longrightarrow> sparse_failed settings130 (chunks130 ! i) \<longleftrightarrow> i = 69"
  by (simp_all add: chunks130_def chunk_no_def settings130_def dense_failed_def sparse_failed_def
        create_dense_vector_def create_sparse_vector_def try_except_def raise_def)

lemma index_130_uploads:
  assumes len: "length chunks = 130"
    and k: "64 \<le> k" "k < 128"
    and fail: "\<And>i. i < 130 \<Longrightarrow> (\<not> embeds_ok S (chunks ! i)) = (i = k)"
    and c: "caught (index_hybrid_collection S uuid4 upload_error store0 drawn0 chunks
                      brain_id 64) = None"
  shows "\<exists>p1 p2 p3 s1 s2.
      length p1 = 64 \<and> length p2 = 63 \<and> length p3 = 2 \<and>
      map doc_of p1 = take 64 chunks \<and>
      map doc_of p2 = filter (embeds_ok S) (take 64 (drop 64 chunks)) \<and>
      map doc_of p3 = drop 128 chunks \<and>
      map doc_of (p1 @ p2 @ p3) = take k chunks @ drop (Suc k) chunks \<and>
      upload_points upload_error store0 brain_id p1 64 = Inr s1 \<and>
      upload_points upload_error s1 brain_id p2 64 = Inr s2 \<and>
      upload_points upload_error s2 brain_id p3 64
        = Inr (store (final (index_hybrid_collection S uuid4 upload_error store0 drawn0 chunks
                               brain_id 64))) \<and>
      store (final (index_hybrid_collection S uuid4 upload_error store0 drawn0 chunks
                      brain_id 64))
        = store0(brain_id := store0 brain_id @ p1 @ p2 @ p3)"
proof -
  let ?b1 = "take 64 chunks" and ?b2 = "take 64 (drop 64 chunks)" and ?b3 = "drop 128 chunks"
  let ?st0 = "\<lparr>store = store0, uuids_drawn = drawn0, invalid_chunks = 0\<rparr>"
  have f1: "length (filter (\<lambda>d. \<not> embeds_ok S d) ?b1) = 0"
    using len k fail by (intro length_filter_none) simp
  have f2: "length (filter (\<lambda>d. \<not> embeds_ok S d) ?b2) = 1"
    using len k fail by (intro length_filter_single[where k = "k - 64"]) auto
  have f3: "length (filter (\<lambda>d. \<not> embeds_ok S d) ?b3) = 0"
    using len k fail by (intro length_filter_none) simp
  have l1: "length (filter (embeds_ok S) ?b1) = 64"
    and l2: "length (filter (embeds_ok S) ?b2) = 63"
    and l3: "length (filter (embeds_ok S) ?b3) = 2"
    using len f1 f2 f3 by (simp_all add: length_filter_ok)
  have e1: "filter (embeds_ok S) ?b1 = ?b1"
    using f1 by (auto simp: filter_id_conv filter_empty_conv)
  have e3: "filter (embeds_ok S) ?b3 = ?b3"
    using f3 by (auto simp: filter_id_conv filter_empty_conv)
  define p1 where "p1 = new_points S uuid4 drawn0 ?b1"
  define p2 where "p2 = new_points S uuid4 (drawn0 + 64) ?b2"
  define p3 where "p3 = new_points S uuid4 (drawn0 + 64 + 63) ?b3"
  define s1 where "s1 = store0(brain_id := store0 brain_id @ p1)"
  define s2 where "s2 = s1(brain_id := s1 brain_id @ p2)"
  define s3 where "s3 = s2(brain_id := s2 brain_id @ p3)"
  have lp: "length p1 = 64" "length p2 = 63" "length p3 = 2"
    by (simp_all add: p1_def p2_def p3_def length_new_points l1 l2 l3)
  have ne: "p1 \<noteq> []" "p2 \<noteq> []" "p3 \<noteq> []" using lp by auto
  obtain r st' where p: "process_batches S uuid4 upload_error brain_id 64 ?st0 [?b1, ?b2, ?b3]
       = (r, st')"
    by (cases "process_batches S uuid4 upload_error brain_id 64 ?st0 [?b1, ?b2, ?b3]") auto
  have r: "r = None"
    using c len p
    by (cases r) (simp_all add: index_hybrid_collection_def batched_chunks_130
                           del: process_batches.simps)
  have run: "process_batches S uuid4 upload_error brain_id 64 ?st0 [?b1, ?b2, ?b3] = (None, st')"
    using p r by simp
  have fin: "final (index_hybrid_collection S uuid4 upload_error store0 drawn0 chunks
                      brain_id 64) = st'"
    using len p r
    by (simp add: index_hybrid_collection_def batched_chunks_130 del: process_batches.simps)
  from process_batches_none_step[OF run] ne(1)
  have u1: "upload_points upload_error store0 brain_id p1 64 = Inr s1"
    and r1: "process_batches S uuid4 upload_error brain_id 64
           \<lparr>store = s1, uuids_drawn = drawn0 + 64, invalid_chunks = 0\<rparr> [?b2, ?b3] = (None, st')"
    by (simp_all add: p1_def s1_def l1 f1)
  from process_batches_none_step[OF r1] ne(2)
  have u2: "upload_points upload_error s1 brain_id p2 64 = Inr s2"
    and r2: "process_batches S uuid4 upload_error brain_id 64
           \<lparr>store = s2, uuids_drawn = drawn0 + 64 + 63, invalid_chunks = 1\<rparr> [?b3] = (None, st')"
    by (simp_all add: p2_def s2_def l2 f2)
  from process_batches_none_step[OF r2] ne(3)
  have u3: "upload_points upload_error s2 brain_id p3 64 = Inr s3"
    and r3: "process_batches S uuid4 upload_error brain_id 64
           \<lparr>store = s3, uuids_drawn = drawn0 + 64 + 63 + 2, invalid_chunks = 1\<rparr> [] = (None, st')"
    by (simp_all add: p3_def s3_def l3 f3)
  have st: "store st' = s3" using r3 by auto
  have s3: "s3 = store0(brain_id := store0 brain_id @ p1 @ p2 @ p3)"
    by (simp add: s3_def s2_def s1_def)
  have d: "map doc_of p1 = ?b1" "map doc_of p2 = filter (embeds_ok S) ?b2" "map doc_of p3 = ?b3"
    by (simp_all add: p1_def p2_def p3_def doc_of_new_points e1 e3)
  have cc: "?b1 @ ?b2 @ ?b3 = chunks"
    using concat_batched_chunks[of 64 chunks "[?b1, ?b2, ?b3]"] len
    by (simp add: batched_chunks_130)
  have "map doc_of (p1 @ p2 @ p3) = filter (embeds_ok S) (?b1 @ ?b2 @ ?b3)"
    using d e1 e3 by simp
  also have "\<dots> = filter (embeds_ok S) chunks" by (simp only: cc)
  also have "\<dots> = take k chunks @ drop (Suc k) chunks"
    using len k fail by (intro filter_all_but_one) auto
  finally have all: "map doc_of (p1 @ p2 @ p3) = take k chunks @ drop (Suc k) chunks" .
  show ?thesis
    using lp d all u1 u2 u3 s3 unfolding fin st by blast
qed

text \<open>
  Claim C4, as amended.  Indexing 130 chunks with batch size 64, where no dense embedding
  raises and the sparse embedding raises for exactly one chunk, which lies in the second
  batch (index \<open>k\<close> with \<open>64 \<le> k < 128\<close>; the 70th chunk has index 69), and no upload raises
  (no exception reaches the outer handler): the batches have 64, 64 and 2 chunks; the run
  makes three \<^verbatim>\<open>upload_points\<close> calls, with 64, 63 and 2 points, after which the
  collection holds, behind what it held before, the points of all chunks but chunk \<open>k\<close>;
  \<^verbatim>\<open>invalid_chunks\<close> ends as 1 and the call returns \<^verbatim>\<open>False\<close>.
\<close>

theorem index_130_chunks_one_sparse_failure:
  assumes "length chunks = 130"
    and "64 \<le> k \<and> k < 128"
    and "\<forall>i<130. \<not> dense_failed S (chunks ! i) \<and> (sparse_failed S (chunks ! i) \<longleftrightarrow> i = k)"
    and "caught (index_hybrid_collection S uuid4 upload_error store0 drawn0 chunks
                   brain_id 64) = None"
  shows "batch_sizes chunks 64 = [64, 64, 2] \<and>
         (\<exists>p1 p2 p3 s1 s2.
            length p1 = 64 \<and> length p2 = 63 \<and> length p3 = 2 \<and>
            map doc_of p1 = take 64 chunks \<and>
            map doc_of p2 = filter (embeds_ok S) (take 64 (drop 64 chunks)) \<and>
            map doc_of p3 = drop 128 chunks \<and>
            map doc_of (p1 @ p2 @ p3) = take k chunks @ drop (Suc k) chunks \<and>
            upload_points upload_error store0 brain_id p1 64 = Inr s1 \<and>
            upload_points upload_error s1 brain_id p2 64 = Inr s2 \<and>
            upload_points upload_error s2 brain_id p3 64
              = Inr (store (final (index_hybrid_collection S uuid4 upload_error store0 drawn0
                                     chunks brain_id 64))) \<and>
            store (final (index_hybrid_collection S uuid4 upload_error store0 drawn0 chunks
                            brain_id 64))
              = store0(brain_id := store0 brain_id @ p1 @ p2 @ p3)) \<and>
         invalid_chunks (final (index_hybrid_collection S uuid4 upload_error store0 drawn0 chunks
           brain_id 64)) = 1 \<and>
         returned (index_hybrid_collection S uuid4 upload_error store0 drawn0 chunks
           brain_id 64) = False"
proof -
  have fail: "\<And>i. i < 130 \<Longrightarrow> (\<not> embeds_ok S (chunks ! i)) = (i = k)"
    using assms(3) by (auto simp: embeds_ok_def)
  from assms(2) have k: "64 \<le> k" "k < 128" by simp_all
  have all: "length (filter (\<lambda>d. \<not> embeds_ok S d) chunks) = 1"
    using assms(1) k fail by (intro length_filter_single[where k = k]) auto
  have pos: "(0::int) < 64" by simp
  have inv: "invalid_chunks (final (index_hybrid_collection S uuid4 upload_error store0 drawn0
           chunks brain_id 64)) = 1"
    using index_caught_none(3)[OF pos assms(4)] all by simp
  have ret: "returned (index_hybrid_collection S uuid4 upload_error store0 drawn0 chunks
           brain_id 64) = False"
    using index_caught_none(1)[OF pos assms(4)] all
    by (metis index_result.select_convs(1) length_0_conv zero_neq_one)
  have bs: "batch_sizes chunks 64 = [64, 64, 2]"
    using assms(1) by (simp add: batch_sizes_def batched_chunks_130)
  show ?thesis
    using bs inv ret index_130_uploads[OF assms(1) k fail assms(4)] by blast
qed

theorem index_130_chunks_one_sparse_failure_witness:
  "length chunks130 = 130 \<and>
   sparse_failed settings130 (chunks130 ! 69) \<and>
   caught (index_hybrid_collection settings130 demo_uuid4 upload_succeeds
      empty_store 0 chunks130 ''brain'' 64) = None \<and>
   batch_sizes chunks130 64 = [64, 64, 2] \<and>
   (\<exists>p1 p2 p3 s1 s2.
      length p1 = 64 \<and> length p2 = 63 \<and> length p3 = 2 \<and>
      map doc_of (p1 @ p2 @ p3) = take 69 chunks130 @ drop 70 chunks130 \<and>
      upload_points upload_succeeds empty_store ''brain'' p1 64 = Inr s1 \<and>
      upload_points upload_succeeds s1 ''brain'' p2 64 = Inr s2 \<and>
      upload_points upload_succeeds s2 ''brain'' p3 64
        = Inr (store (final (index_hybrid_collection settings130 demo_uuid4 upload_succeeds
                               empty_store 0 chunks130 ''brain'' 64)))) \<and>
   invalid_chunks (final (index_hybrid_collection settings130 demo_uuid4 upload_succeeds
      empty_store 0 chunks130 ''brain'' 64)) = 1 \<and>
   returned (index_hybrid_collection settings130 demo_uuid4 upload_succeeds
      empty_store 0 chunks130 ''brain'' 64) = False"
proof -
  have 1: "length chunks130 = 130" by (rule chunks130_facts)
  have 2: "(64::nat) \<le> 69 \<and> (69::nat) < 128" by simp
  have 3: "\<forall>i<130. \<not> dense_failed settings130 (chunks130 ! i) \<and>
             (sparse_failed settings130 (chunks130 ! i) \<longleftrightarrow> i = 69)"
    using chunks130_facts(2,3) by blast
  have up: "\<And>s c ps. upload_succeeds s c ps = None" by (simp add: upload_succeeds_def)
  have 4: "caught (index_hybrid_collection settings130 demo_uuid4 upload_succeeds
      empty_store 0 chunks130 ''brain'' 64) = None"
    by (subst index_no_error[of 64 upload_succeeds, OF _ up]) simp_all
  have 5: "sparse_failed settings130 (chunks130 ! 69)" using chunks130_facts(3)[of 69] by simp
  have 6: "Suc 69 = 70" by simp
  show ?thesis
    using index_130_chunks_one_sparse_failure[OF 1 2 3 4] 1 4 5 unfolding 6 by blast
qed

text \<open>
  Claim C4 as stated has the second batch hold 65 chunks (64 uploaded) and the last batch
  hold 1: on 130 concrete chunks the batches are 64, 64 and 2, with 64, 63 and 2 points
  built.
\<close>

theorem index_130_chunks_batches_counterexample:
  "batch_sizes chunks130 64 = [64, 64, 2] \<and> batch_sizes chunks130 64 \<noteq> [64, 65, 1] \<and>
   built_per_batch settings130 demo_uuid4 chunks130 64 = [64, 63, 2] \<and>
   built_per_batch settings130 demo_uuid4 chunks130 64 \<noteq> [64, 64, 1]"
proof -
  have fail: "\<And>i. i < 130 \<Longrightarrow> (\<not> embeds_ok settings130 (chunks130 ! i)) = (i = 69)"
    using chunks130_facts(2,3) by (auto simp: embeds_ok_def)
  have up: "\<And>s c ps. upload_succeeds s c ps = None" by (simp add: upload_succeeds_def)
  have "batch_sizes chunks130 64 = [64, 64, 2]"
    and "built_per_batch settings130 demo_uuid4 chunks130 64 = [64, 63, 2]"
    using index_130_one_failure(1,2)[of chunks130 69 settings130 upload_succeeds,
        OF chunks130_facts(1) _ _ fail up] by simp_all
  then show ?thesis by simp
qed

section \<open>The searches\<close>

lemmas search_simps = demo_hit_def demo_hits_def demo_query_points_def demo_rerank_def
  demo_len_def
  filter_holds_def payload_value_def pdf_id_filter_def

lemma demo_honours_filter: "honours_filter demo_query_points"
  by (auto simp: honours_filter_def demo_query_points_def split: option.splits if_splits
           dest!: in_set_takeD)




lemma pdf_id_filter_holds:
  "filter_holds (Some \<lparr>must = [FieldCondition ''metadata.pdf_id'' (MatchValue pdf_id)]\<rparr>) p
     \<longleftrightarrow> map_of (payload_metadata p) ''pdf_id'' = Some pdf_id"
  by (simp add: filter_holds_def payload_value_def)

text \<open>
  Claim C6.  \<^verbatim>\<open>dense_search\<close> is one call of \<^verbatim>\<open>query_points\<close> on field \<^verbatim>\<open>dense\<close> with
  the exact-match filter on \<^verbatim>\<open>metadata.pdf_id\<close>; whenever \<^verbatim>\<open>sparse_search\<close> returns, its
  result is that of one call on field \<^verbatim>\<open>sparse\<close> with the same filter.  With a client that
  honours filters, every point either search returns has the given identifier as its
  metadata \<^verbatim>\<open>pdf_id\<close>.
\<close>

theorem single_field_searches_filter_by_pdf_id:
  "(\<exists>request.
            dense_search query_points query_vec pdf_id brain_id = query_points request \<and>
            query request = NearestDense query_vec \<and>
            using_field request = Some ''dense'' \<and>
            filter_arg request = Some (pdf_id_filter pdf_id)) \<and>
   (\<forall>documents. sparse_search S query_points query_text pdf_id brain_id = Inr documents \<longrightarrow>
      (\<exists>request sparse_query.
         create_sparse_vector S query_text = Inr sparse_query \<and>
         query_points request = Inr documents \<and>
         query request = NearestSparse sparse_query \<and>
         using_field request = Some ''sparse'' \<and>
         filter_arg request = Some (pdf_id_filter pdf_id))) \<and>
   (honours_filter query_points \<longrightarrow>
      (\<forall>documents. dense_search query_points query_vec pdf_id brain_id = Inr documents \<longrightarrow>
         (\<forall>p \<in> set documents. map_of (payload_metadata p) ''pdf_id'' = Some pdf_id)) \<and>
      (\<forall>documents. sparse_search S query_points query_text pdf_id brain_id = Inr documents \<longrightarrow>
         (\<forall>p \<in> set documents. map_of (payload_metadata p) ''pdf_id'' = Some pdf_id)))"
proof (intro conjI allI impI)
  show "\<exists>request.
            dense_search query_points query_vec pdf_id brain_id = query_points request \<and>
            query request = NearestDense query_vec \<and>
            using_field request = Some ''dense'' \<and>
            filter_arg request = Some (pdf_id_filter pdf_id)"
    unfolding dense_search_def
    by (rule exI[of _ "\<lparr>collection_name = brain_id, prefetch = [], query = NearestDense query_vec,
          using_field = Some ''dense'',
          filter_arg = Some \<lparr>must = [FieldCondition ''metadata.pdf_id'' (MatchValue pdf_id)]\<rparr>,
          limit = None\<rparr>"]) (simp add: pdf_id_filter_def)
next
  fix documents
  assume a: "sparse_search S query_points query_text pdf_id brain_id = Inr documents"
  then obtain sq rest where e: "SPARSE_EMBEDDING_MODEL S [query_text] = Inr (sq # rest)"
    by (auto simp: sparse_search_def try_except_def raise_def split: sum.splits list.splits)
  let ?v = "\<lparr>indices = emb_indices sq, vals = emb_values sq\<rparr>"
  let ?request = "\<lparr>collection_name = brain_id, prefetch = [], query = NearestSparse ?v,
          using_field = Some ''sparse'',
          filter_arg = Some \<lparr>must = [FieldCondition ''metadata.pdf_id'' (MatchValue pdf_id)]\<rparr>,
          limit = None\<rparr>"
  have q: "query_points ?request = Inr documents"
    using a e by (simp add: sparse_search_def try_except_def raise_def split: sum.splits)
  have v: "create_sparse_vector S query_text = Inr ?v"
    using e by (simp add: create_sparse_vector_def try_except_def)
  show "\<exists>request sparse_query.
               create_sparse_vector S query_text = Inr sparse_query \<and>
               query_points request = Inr documents \<and>
               query request = NearestSparse sparse_query \<and>
               using_field request = Some ''sparse'' \<and>
               filter_arg request = Some (pdf_id_filter pdf_id)"
    by (rule exI[of _ ?request], rule exI[of _ ?v]) (simp add: q v pdf_id_filter_def)
next
  fix documents
  assume h: "honours_filter query_points"
    and "dense_search query_points query_vec pdf_id brain_id = Inr documents"
  then have "\<forall>p \<in> set documents.
      filter_holds (Some \<lparr>must = [FieldCondition ''metadata.pdf_id'' (MatchValue pdf_id)]\<rparr>) p"
    unfolding honours_filter_def dense_search_def by fastforce
  then show "\<forall>p \<in> set documents. map_of (payload_metadata p) ''pdf_id'' = Some pdf_id"
    by (simp only: pdf_id_filter_holds)
next
  fix documents
  assume h: "honours_filter query_points"
    and a: "sparse_search S query_points query_text pdf_id brain_id = Inr documents"
  then obtain sq rest where e: "SPARSE_EMBEDDING_MODEL S [query_text] = Inr (sq # rest)"
    by (auto simp: sparse_search_def try_except_def raise_def split: sum.splits list.splits)
  have "query_points \<lparr>collection_name = brain_id, prefetch = [],
          query = NearestSparse \<lparr>indices = emb_indices sq, vals = emb_values sq\<rparr>,
          using_field = Some ''sparse'',
          filter_arg = Some \<lparr>must = [FieldCondition ''metadata.pdf_id'' (MatchValue pdf_id)]\<rparr>,
          limit = None\<rparr> = Inr documents"
    using a e by (simp add: sparse_search_def try_except_def raise_def split: sum.splits)
  then have "\<forall>p \<in> set documents.
      filter_holds (Some \<lparr>must = [FieldCondition ''metadata.pdf_id'' (MatchValue pdf_id)]\<rparr>) p"
    using h unfolding honours_filter_def by fastforce
  then show "\<forall>p \<in> set documents. map_of (payload_metadata p) ''pdf_id'' = Some pdf_id"
    by (simp only: pdf_id_filter_holds)
qed

theorem single_field_searches_filter_by_pdf_id_witness:
  "dense_search demo_query_points [1, 2, 3] ''doc-42'' ''brain''
     = Inr [demo_hit ''p1'' ''doc-42'', demo_hit ''p3'' ''doc-42''] \<and>
   sparse_search demo_settings demo_query_points ''refund policy'' ''doc-7'' ''brain''
     = Inr [demo_hit ''p2'' ''doc-7''] \<and>
   map (\<lambda>p. map_of (payload_metadata p) ''pdf_id'')
       [demo_hit ''p1'' ''doc-42'', demo_hit ''p3'' ''doc-42''] = [Some ''doc-42'', Some ''doc-42'']"
proof -
  have 1: "dense_search demo_query_points [1, 2, 3] ''doc-42'' ''brain''
     = Inr [demo_hit ''p1'' ''doc-42'', demo_hit ''p3'' ''doc-42'']"
    by (simp add: dense_search_def search_simps)
  have 2: "sparse_search demo_settings demo_query_points ''refund policy'' ''doc-7'' ''brain''
     = Inr [demo_hit ''p2'' ''doc-7'']"
    by (simp add: sparse_search_def try_except_def demo_settings_def search_simps)
  from single_field_searches_filter_by_pdf_id[of demo_query_points "[1, 2, 3]" "''doc-42''"
         "''brain''" demo_settings "''refund policy''"] demo_honours_filter
  have "\<forall>p \<in> set [demo_hit ''p1'' ''doc-42'', demo_hit ''p3'' ''doc-42''].
          map_of (payload_metadata p) ''pdf_id'' = Some ''doc-42''"
    using 1 by blast
  then show ?thesis using 1 2 by simp
qed

section \<open>Response generation\<close>

lemma format_hyde:
  "format_template hyde_prompt_template [(''question'', question), (''context'', context)]
      = Inr (hyde_head @ question @ hyde_mid @ context @ hyde_tail)"
  by (simp add: hyde_prompt_template_def)

text \<open>
  Claim C7, as amended.  Each \<^verbatim>\<open>generate_response\<close> returns the language model's output
  unmodified when the call succeeds (the hybrid variant then logs
  \<^verbatim>\<open>"response generated"\<close>).  When the call raises, in all three variants the same
  exception reaches the caller and nothing is logged: the dense and the HyDE variant have no
  handler, and the handler of the hybrid variant only re-raises.
\<close>

theorem generate_response_variants:
  "(format_template prompt_template [(''question'', question), (''context'', context)]
      = Inr formatted_prompt \<longrightarrow>
      (\<forall>response. invoke formatted_prompt = Inr response \<longrightarrow>
         dense_generate_response prompt_template invoke log question context
           = (Inr response, log) \<and>
         hybrid_generate_response prompt_template invoke log question context
           = (Inr response, log @ [Info ''response generated''])) \<and>
      (\<forall>e. invoke formatted_prompt = Inl e \<longrightarrow>
         dense_generate_response prompt_template invoke log question context = (Inl e, log) \<and>
         hybrid_generate_response prompt_template invoke log question context = (Inl e, log)))
   \<and>
   hyde_generate_response invoke log question context
     = (invoke (hyde_head @ question @ hyde_mid @ context @ hyde_tail), log)"
proof (intro conjI impI allI)
  fix response
  assume "format_template prompt_template [(''question'', question), (''context'', context)]
      = Inr formatted_prompt" and "invoke formatted_prompt = Inr response"
  then show "dense_generate_response prompt_template invoke log question context
           = (Inr response, log)"
    and "hybrid_generate_response prompt_template invoke log question context
           = (Inr response, log @ [Info ''response generated''])"
    by (simp_all add: dense_generate_response_def hybrid_generate_response_def)
next
  fix e
  assume "format_template prompt_template [(''question'', question), (''context'', context)]
      = Inr formatted_prompt" and "invoke formatted_prompt = Inl e"
  then show "dense_generate_response prompt_template invoke log question context = (Inl e, log)"
    and "hybrid_generate_response prompt_template invoke log question context = (Inl e, log)"
    by (simp_all add: dense_generate_response_def hybrid_generate_response_def raise_def)
next
  show "hyde_generate_response invoke log question context
     = (invoke (hyde_head @ question @ hyde_mid @ context @ hyde_tail), log)"
    by (simp add: hyde_generate_response_def format_hyde)
qed

theorem generate_response_variants_witness:
  "dense_generate_response demo_template demo_llm [] ''why?'' ''because''
     = (Inr ''Answer to <Question: why? Context: because>'', []) \<and>
   hybrid_generate_response demo_template demo_llm [] ''why?'' ''because''
     = (Inr ''Answer to <Question: why? Context: because>'', [Info ''response generated'']) \<and>
   dense_generate_response demo_template failing_llm [] ''why?'' ''because''
     = (Inl (ExternalError ''model unavailable''), []) \<and>
   hybrid_generate_response demo_template failing_llm [] ''why?'' ''because''
     = (Inl (ExternalError ''model unavailable''), [])"
proof -
  have f: "format_template demo_template [(''question'', ''why?''), (''context'', ''because'')]
             = Inr ''Question: why? Context: because''"
    by (simp add: demo_template_def)
  have ok: "demo_llm ''Question: why? Context: because''
             = Inr ''Answer to <Question: why? Context: because>''"
    by (simp add: demo_llm_def)
  have bad: "failing_llm ''Question: why? Context: because''
             = Inl (ExternalError ''model unavailable'')"
    by (simp add: failing_llm_def)
  show ?thesis
    using generate_response_variants[of demo_template "''why?''" "''because''"
            "''Question: why? Context: because''" demo_llm "[]"]
          generate_response_variants[of demo_template "''why?''" "''because''"
            "''Question: why? Context: because''" failing_llm "[]"]
          f ok bad
    by simp
qed

text \<open>
  Claim C7 as stated has the hybrid and the HyDE variant log the exception: with a language
  model that raises and an empty log before the call, the log is empty after it.
\<close>

theorem generate_response_no_logging_counterexample:
  "hybrid_generate_response demo_template failing_llm [] ''why?'' ''because''
     = (Inl (ExternalError ''model unavailable''), []) \<and>
   hyde_generate_response failing_llm [] ''why?'' ''because''
     = (Inl (ExternalError ''model unavailable''), [])"
  by (simp add: hybrid_generate_response_def hyde_generate_response_def demo_template_def
        format_hyde failing_llm_def raise_def)

section \<open>HyDE search\<close>

text \<open>
  Claim C8 fails on the code: a \<^verbatim>\<open>HyDEService\<close> as \<^verbatim>\<open>__init__\<close> builds it has no
  \<^verbatim>\<open>retriever\<close>, so \<^verbatim>\<open>hyde_search\<close> raises \<^verbatim>\<open>AttributeError\<close> for every query and
  issues no search.
\<close>

theorem hyde_search_raises:
  "hyde_search (hyde_init client llm_manager) query_text = Inl (AttributeError ''retriever'')"
  by (simp add: hyde_search_def hyde_init_def)

text \<open>
  With a retriever bound, the method is the retriever's \<^verbatim>\<open>invoke\<close>.
\<close>

lemma hyde_search_with_retriever:
  "retriever self = Some invoke \<Longrightarrow> hyde_search self query_text = invoke query_text"
  by (simp add: hyde_search_def)

section \<open>The client manager\<close>

text \<open>
  Claim C9 fails on the code: on a new \<^verbatim>\<open>QdrantClientManager\<close> the first
  \<^verbatim>\<open>get_client\<close> raises \<^verbatim>\<open>AttributeError\<close> at \<^verbatim>\<open>self.client\<close> and creates nothing.
\<close>

theorem get_client_new_manager:
  "get_client connect S new_manager = (Inl (AttributeError ''client''), new_manager)"
  by (simp add: get_client_def new_manager_def)

text \<open>
  Had the attributes been initialised (\<^verbatim>\<open>client\<close> to \<^verbatim>\<open>None\<close>, \<^verbatim>\<open>logger\<close> to a logger),
  the first call would create and return the handle and every later call would return the
  same handle without connecting again; with \<^verbatim>\<open>client\<close> alone initialised, the first call
  stores the handle and then raises at \<^verbatim>\<open>self.logger\<close>.
\<close>

lemma get_client_initialised:
  assumes "client_attr self = PyNone" and "logger_attr self = Some records"
    and "connect (QDRANT_URL S) = Inr c"
  shows "get_client connect S self =
           (Inr c, self\<lparr>client_attr := Bound c,
                        logger_attr := Some (records @ [Info ''Qdrant client created.''])\<rparr>)"
    and "get_client connect' S (snd (get_client connect S self)) =
           (Inr c, snd (get_client connect S self))"
  using assms by (simp_all add: get_client_def logger_info_def)

lemma get_client_without_logger:
  assumes "client_attr self = PyNone" and "logger_attr self = None"
    and "connect (QDRANT_URL S) = Inr c"
  shows "get_client connect S self = (Inl (AttributeError ''logger''), self\<lparr>client_attr := Bound c\<rparr>)"
  using assms by (simp add: get_client_def logger_info_def)

text \<open>
  Claim C10 fails on the code for the same reason: on a new manager
  \<^verbatim>\<open>create_hybrid_collection\<close> raises in \<^verbatim>\<open>get_client\<close>, before the existence check, the
  first time and every time after; the server's collections are unchanged.
\<close>

theorem create_hybrid_collection_new_manager:
  "create_hybrid_collection connect S (new_manager, srv)
     = (Some (AttributeError ''client''), new_manager, srv) \<and>
   create_hybrid_collection connect S (snd (create_hybrid_collection connect S (new_manager, srv)))
     = (Some (AttributeError ''client''), new_manager, srv)"
  by (simp add: create_hybrid_collection_def get_client_def new_manager_def)

text \<open>
  With the attributes initialised and the collection absent, the first call creates it
  with the dense field (384, cosine) and the sparse field, and the second call leaves the
  collections as they are.
\<close>

lemma create_hybrid_collection_initialised:
  assumes "client_attr self = PyNone" and "logger_attr self = Some records"
    and "connect (QDRANT_URL S) = Inr c"
    and "\<not> collection_exists srv (HYBRID_COLLECTION S)"
  shows "\<exists>self1 self2.
           create_hybrid_collection connect S (self, srv) =
             (None, self1,
              srv @ [(HYBRID_COLLECTION S,
                      \<lparr>vectors_config = [(''dense'', \<lparr>vector_size = 384, vector_distance = COSINE\<rparr>)],
                       sparse_vectors_config = [''sparse'']\<rparr>)]) \<and>
           create_hybrid_collection connect S
               (snd (create_hybrid_collection connect S (self, srv))) =
             (None, self2,
              srv @ [(HYBRID_COLLECTION S,
                      \<lparr>vectors_config = [(''dense'', \<lparr>vector_size = 384, vector_distance = COSINE\<rparr>)],
                       sparse_vectors_config = [''sparse'']\<rparr>)])"
  using assms
  by (simp add: create_hybrid_collection_def get_client_def logger_info_def
        create_collection_internal_def create_collection_def collection_exists_def)

end
